theory Spec2Isabelle
  imports Complex_Main "HOL-Library.While_Combinator"
begin

section \<open>JavaScript values\<close>

text \<open>
  The widget (\<^verbatim>\<open>page.js\<close>) receives its rows from the host as plain data and works on them
  with JavaScript's dynamic operators. Values are modelled as trees: a number is a double
  (a real, a NaN or an infinity), a string is a list of characters, an array is a list of
  values and an object is an association list of own properties (the first entry of a key
  is the property). Host data carries no functions and no shared sub-objects.
\<close>

datatype number = NaN | Fin real | PosInf | NegInf

datatype jsval =
    Undefined
  | Null
  | Bool bool
  | Num number
  | Str string
  | Arr "jsval list"
  | Obj "(string \<times> jsval) list"

datatype exn = TypeError | SyntaxError | ExternalError

text \<open>
  Built-ins of the JavaScript runtime and of the libraries the page loads (Leaflet, DOMPurify)
  are not part of the repository. Those that the code calls are parameters of the model:
  the formatting of a number as a string, the reading of a string as a number,
  \<^verbatim>\<open>JSON.parse\<close> (\<open>None\<close> is its SyntaxError), the argument check of Leaflet's
  \<^verbatim>\<open>L.LatLng\<close> constructor (which raises on arguments it rejects),
  \<^verbatim>\<open>DOMPurify.sanitize\<close>, and the string that \<^verbatim>\<open>String\<close> makes of a member of
  \<^verbatim>\<open>Object.prototype\<close>, given its name (the text of a built-in function).
\<close>

record runtime =
  number_toString :: "number \<Rightarrow> string"
  string_toNumber :: "string \<Rightarrow> number"
  JSON_parse :: "string \<Rightarrow> jsval option"
  LatLng_accepts :: "jsval \<Rightarrow> jsval \<Rightarrow> bool"
  sanitize :: "string \<Rightarrow> string"
  inherited_toString :: "string \<Rightarrow> string"

fun nullish :: "jsval \<Rightarrow> bool" where
  "nullish Undefined = True"
| "nullish Null = True"
| "nullish _ = False"

text \<open>ToBoolean: what \<^verbatim>\<open>if (v)\<close>, \<^verbatim>\<open>!v\<close>, \<^verbatim>\<open>&&\<close> and \<^verbatim>\<open>||\<close> test.\<close>

fun truthy :: "jsval \<Rightarrow> bool" where
  "truthy Undefined = False"
| "truthy Null = False"
| "truthy (Bool b) = b"
| "truthy (Num NaN) = False"
| "truthy (Num (Fin x)) = (x \<noteq> 0)"
| "truthy (Num PosInf) = True"
| "truthy (Num NegInf) = True"
| "truthy (Str s) = (s \<noteq> [])"
| "truthy (Arr xs) = True"
| "truthy (Obj kv) = True"

fun join_comma :: "string list \<Rightarrow> string" where
  "join_comma [] = []"
| "join_comma [s] = s"
| "join_comma (s # t # ss) = s @ '','' @ join_comma (t # ss)"

text \<open>ToString, as \<^verbatim>\<open>String(v)\<close> and a computed property key \<^verbatim>\<open>o[v]\<close> apply it.\<close>

fun ToString :: "runtime \<Rightarrow> jsval \<Rightarrow> string" where
  "ToString rt Undefined = ''undefined''"
| "ToString rt Null = ''null''"
| "ToString rt (Bool b) = (if b then ''true'' else ''false'')"
| "ToString rt (Num n) = number_toString rt n"
| "ToString rt (Str s) = s"
| "ToString rt (Arr xs) =
     join_comma (map (\<lambda>x. if x = Undefined \<or> x = Null then [] else ToString rt x) xs)"
| "ToString rt (Obj kv) = ''[object Object]''"

text \<open>ToNumber, as \<^verbatim>\<open>Math.abs(v)\<close> and \<^verbatim>\<open>i < v\<close> apply it.\<close>

fun ToNumber :: "runtime \<Rightarrow> jsval \<Rightarrow> number" where
  "ToNumber rt Undefined = NaN"
| "ToNumber rt Null = Fin 0"
| "ToNumber rt (Bool b) = Fin (if b then 1 else 0)"
| "ToNumber rt (Num n) = n"
| "ToNumber rt (Str s) = string_toNumber rt s"
| "ToNumber rt (Arr xs) = string_toNumber rt (ToString rt (Arr xs))"
| "ToNumber rt (Obj kv) = string_toNumber rt (ToString rt (Obj kv))"

fun num_abs :: "number \<Rightarrow> number" where
  "num_abs NaN = NaN"
| "num_abs (Fin x) = Fin \<bar>x\<bar>"
| "num_abs PosInf = PosInf"
| "num_abs NegInf = PosInf"

fun num_less :: "number \<Rightarrow> number \<Rightarrow> bool" where
  "num_less (Fin x) (Fin y) = (x < y)"
| "num_less (Fin x) PosInf = True"
| "num_less NegInf (Fin y) = True"
| "num_less NegInf PosInf = True"
| "num_less _ _ = False"

fun num_eq :: "number \<Rightarrow> number \<Rightarrow> bool" where
  "num_eq (Fin x) (Fin y) = (x = y)"
| "num_eq PosInf PosInf = True"
| "num_eq NegInf NegInf = True"
| "num_eq _ _ = False"

text \<open>
  Reading a property by a name that is neither an index nor \<^verbatim>\<open>length\<close> nor inherited
  from a prototype (\<^verbatim>\<open>type\<close>, \<^verbatim>\<open>coordinates\<close>, \<^verbatim>\<open>value\<close>, \<^verbatim>\<open>center\<close>, ...): only an object
  can have it. On \<^verbatim>\<open>null\<close> and \<^verbatim>\<open>undefined\<close> the read raises, which the callers model.
\<close>

fun js_get :: "jsval \<Rightarrow> string \<Rightarrow> jsval" where
  "js_get (Obj kv) k = (case map_of kv k of Some v \<Rightarrow> v | None \<Rightarrow> Undefined)"
| "js_get _ k = Undefined"

text \<open>\<^verbatim>\<open>v.length\<close> and \<^verbatim>\<open>v[i]\<close> for a counter \<open>i\<close>, on a value that is not nullish.\<close>

fun js_length :: "jsval \<Rightarrow> jsval" where
  "js_length (Arr xs) = Num (Fin (real (length xs)))"
| "js_length (Str s) = Num (Fin (real (length s)))"
| "js_length (Obj kv) = js_get (Obj kv) ''length''"
| "js_length _ = Undefined"

fun js_index :: "runtime \<Rightarrow> jsval \<Rightarrow> nat \<Rightarrow> jsval" where
  "js_index rt (Arr xs) i = (if i < length xs then xs ! i else Undefined)"
| "js_index rt (Str s) i = (if i < length s then Str [s ! i] else Undefined)"
| "js_index rt (Obj kv) i = js_get (Obj kv) (number_toString rt (Fin (real i)))"
| "js_index rt _ i = Undefined"

section \<open>Loops over a value\<close>

text \<open>
  \<^verbatim>\<open>for (let i = 0; i < coords.length; i++) body(coords[i])\<close>. The body works on a state
  and may raise; what it did before raising stays done, so a run yields the state and
  the exception, if any. \<open>None\<close> is a run that never returns.

  On an array the loop visits the elements in order, on a string its characters. On a
  number or a boolean \<^verbatim>\<open>length\<close> is undefined and the body never runs; on \<^verbatim>\<open>null\<close> and
  \<^verbatim>\<open>undefined\<close> reading \<^verbatim>\<open>length\<close> raises. Any other object is read through its
  \<^verbatim>\<open>length\<close> and index properties; the counter is a double, which \<^verbatim>\<open>i++\<close> no longer
  changes once it has reached \<open>2 ^ 53\<close>.
\<close>

type_synonym 's run = "('s \<times> exn option) option"

fun iterate :: "('x \<Rightarrow> 's \<Rightarrow> 's run) \<Rightarrow> 'x list \<Rightarrow> 's \<Rightarrow> 's run" where
  "iterate body [] s = Some (s, None)"
| "iterate body (x # xs) s =
     (case body x s of
        None \<Rightarrow> None
      | Some (s', Some e) \<Rightarrow> Some (s', Some e)
      | Some (s', None) \<Rightarrow> iterate body xs s')"

definition max_counter :: nat where
  "max_counter = 2 ^ 53"

definition arraylike_cond :: "runtime \<Rightarrow> (string \<times> jsval) list \<Rightarrow> nat \<times> 's run \<Rightarrow> bool" where
  "arraylike_cond rt kv = (\<lambda>(i, r). case r of
       Some (s', None) \<Rightarrow> num_less (Fin (real i)) (ToNumber rt (js_length (Obj kv)))
     | _ \<Rightarrow> False)"

definition arraylike_step ::
  "runtime \<Rightarrow> (string \<times> jsval) list \<Rightarrow> (jsval \<Rightarrow> 's \<Rightarrow> 's run) \<Rightarrow> nat \<times> 's run \<Rightarrow> nat \<times> 's run" where
  "arraylike_step rt kv body = (\<lambda>(i, r). (min (Suc i) max_counter,
       case r of Some (s', _) \<Rightarrow> body (js_index rt (Obj kv) i) s' | None \<Rightarrow> None))"

definition for_arraylike ::
  "runtime \<Rightarrow> (string \<times> jsval) list \<Rightarrow> (jsval \<Rightarrow> 's \<Rightarrow> 's run) \<Rightarrow> 's \<Rightarrow> 's run" where
  "for_arraylike rt kv body s =
     (case while_option (arraylike_cond rt kv) (arraylike_step rt kv body) (0, Some (s, None))
      of None \<Rightarrow> None | Some (i, r) \<Rightarrow> r)"

definition js_for :: "runtime \<Rightarrow> jsval \<Rightarrow> (jsval \<Rightarrow> 's \<Rightarrow> 's run) \<Rightarrow> 's \<Rightarrow> 's run" where
  "js_for rt coords body s =
     (case coords of
        Undefined \<Rightarrow> Some (s, Some TypeError)
      | Null \<Rightarrow> Some (s, Some TypeError)
      | Bool b \<Rightarrow> Some (s, None)
      | Num n \<Rightarrow> Some (s, None)
      | Str cs \<Rightarrow> iterate body (map (\<lambda>c. Str [c]) cs) s
      | Arr xs \<Rightarrow> iterate body xs s
      | Obj kv \<Rightarrow> for_arraylike rt kv body s)"

text \<open>The values a loop can hand to its body.\<close>

fun elements :: "jsval \<Rightarrow> jsval set" where
  "elements (Arr xs) = set xs"
| "elements (Str cs) = (\<lambda>c. Str [c]) ` set cs"
| "elements (Obj kv) = insert Undefined (snd ` set kv)"
| "elements _ = {}"

section \<open>The point extractor\<close>

datatype latlng = LatLng (lat: jsval) (lng: jsval)

text \<open>
  \<^verbatim>\<open>depthMap[geometry.type]\<close>. The table is a plain object literal, so besides its six
  entries a key that names a property inherited from \<^verbatim>\<open>Object.prototype\<close> also looks
  something up: a function or an object, not a number.
\<close>

datatype depth_entry = Depth nat | Inherited

definition inherited_keys :: "string list" where
  "inherited_keys =
     [''constructor'', ''toString'', ''toLocaleString'', ''valueOf'', ''hasOwnProperty'',
      ''isPrototypeOf'', ''propertyIsEnumerable'', ''__proto__'', ''__defineGetter__'',
      ''__defineSetter__'', ''__lookupGetter__'', ''__lookupSetter__'']"

definition depthMap :: "string \<Rightarrow> depth_entry option" where
  "depthMap k =
     (if k = ''Point'' then Some (Depth 0)
      else if k = ''LineString'' then Some (Depth 1)
      else if k = ''Polygon'' then Some (Depth 2)
      else if k = ''MultiPoint'' then Some (Depth 1)
      else if k = ''MultiLineString'' then Some (Depth 2)
      else if k = ''MultiPolygon'' then Some (Depth 3)
      else if k \<in> set inherited_keys then Some Inherited
      else None)"

text \<open>
  \<^verbatim>\<open>extractCoordinates(coords, depth)\<close>, the inner function; the state is the array
  \<^verbatim>\<open>points\<close> of the enclosing call, which it pushes to.
\<close>

primrec extractCoordinates :: "runtime \<Rightarrow> nat \<Rightarrow> jsval \<Rightarrow> latlng list \<Rightarrow> latlng list run" where
  "extractCoordinates rt 0 coords points =
     Some (if nullish coords then (points, Some TypeError)
           else if LatLng_accepts rt (js_index rt coords 1) (js_index rt coords 0)
           then (points @ [LatLng (js_index rt coords 1) (js_index rt coords 0)], None)
           else (points, Some ExternalError))"
| "extractCoordinates rt (Suc d) coords points =
     js_for rt coords (\<lambda>c ps. extractCoordinates rt d c ps) points"

lemma iterate_cong:
  "(\<And>x t. x \<in> set xs \<Longrightarrow> f x t = g x t) \<Longrightarrow> iterate f xs s = iterate g xs s"
  by (induction xs arbitrary: s) (auto split: option.splits prod.splits)

lemma js_get_elements: "js_get (Obj kv) k \<in> elements (Obj kv)"
  by (auto split: option.splits dest!: map_of_SomeD intro: rev_image_eqI)

lemma for_arraylike_cong:
  assumes "\<And>x t. x \<in> elements (Obj kv) \<Longrightarrow> f x t = g x t"
  shows "for_arraylike rt kv f s = for_arraylike rt kv g s"
proof -
  have "arraylike_step rt kv f = arraylike_step rt kv g"
    using assms js_get_elements by (auto simp: arraylike_step_def fun_eq_iff split: option.splits)
  then show ?thesis by (simp only: for_arraylike_def)
qed

lemma js_for_cong [fundef_cong]:
  assumes "coords = coords'" and "s = s'"
    and "\<And>x t. x \<in> elements coords' \<Longrightarrow> f x t = g x t"
  shows "js_for rt coords f s = js_for rt coords' g s'"
proof (cases coords')
  case (Str cs)
  then show ?thesis using assms unfolding js_for_def
    by (auto intro!: iterate_cong)
next
  case (Arr xs)
  then show ?thesis using assms unfolding js_for_def
    by (auto intro!: iterate_cong)
next
  case (Obj kv)
  then show ?thesis using assms for_arraylike_cong[of kv f g rt s'] unfolding js_for_def
    by auto
qed (use assms in \<open>auto simp: js_for_def\<close>)


lemma size_js_get:
  assumes "js_get v k \<noteq> Undefined"
  shows "size (js_get v k) < size v"
proof (cases v)
  case (Obj kv)
  show ?thesis
  proof (cases "map_of kv k")
    case None
    with Obj assms show ?thesis by simp
  next
    case (Some w)
    then have "(k, w) \<in> set kv" by (rule map_of_SomeD)
    then have "size w < Suc (size_list (size_prod (\<lambda>_. 0) size) kv)"
      by (induction kv) auto
    with Obj Some show ?thesis by simp
  qed
qed (use assms in auto)

lemma size_js_get_le: "size (js_get v k) \<le> size v"
  using size_js_get[of v k] by (cases "js_get v k = Undefined") auto

lemma size_elements: "x \<in> elements c \<Longrightarrow> size x < Suc (size c)"
proof (cases c)
  case (Arr xs)
  assume "x \<in> elements c"
  with Arr have "x \<in> set xs" by simp
  then have "size x < Suc (size_list size xs)" by (induction xs) auto
  with Arr show ?thesis by simp
next
  case (Obj kv)
  assume "x \<in> elements c"
  with Obj have "x = Undefined \<or> (\<exists>k. (k, x) \<in> set kv)" by auto
  then show ?thesis
  proof
    assume "x = Undefined" then show ?thesis by simp
  next
    assume "\<exists>k. (k, x) \<in> set kv"
    then obtain k where "(k, x) \<in> set kv" ..
    then have "size x < Suc (size_list (size_prod (\<lambda>_. 0) size) kv)"
      by (induction kv) auto
    with Obj show ?thesis by simp
  qed
qed auto

text \<open>
  \<^verbatim>\<open>extractPointsFromGeoJSON(geojson)\<close>. Everything after the first test runs inside
  \<^verbatim>\<open>try\<close>; the handler logs and falls through to \<^verbatim>\<open>return points\<close>, so an exception is
  dropped and the points pushed so far are returned. A looked-up depth that is not a
  number is never \<^verbatim>\<open>=== 0\<close>, and neither is what \<^verbatim>\<open>depth - 1\<close> makes of it: that descent
  pushes nothing, and whatever it raises is caught.
\<close>

function extractPointsFromGeoJSON :: "runtime \<Rightarrow> jsval \<Rightarrow> latlng list option" where
  "extractPointsFromGeoJSON rt geojson =
     (if \<not> truthy geojson \<or> \<not> truthy (js_get geojson ''type'') then Some []
      else let geometry = (if js_get geojson ''type'' = Str ''Feature''
                           then js_get geojson ''geometry'' else geojson)
        in if \<not> truthy geometry \<or> \<not> truthy (js_get geometry ''coordinates'') then Some []
        else (case depthMap (ToString rt (js_get geometry ''type'')) of
                Some (Depth d) \<Rightarrow>
                  map_option fst (extractCoordinates rt d (js_get geometry ''coordinates'') [])
              | Some Inherited \<Rightarrow> Some []
              | None \<Rightarrow>
                  if js_get geometry ''type'' = Str ''GeometryCollection''
                  then map_option fst
                         (js_for rt (js_get geometry ''geometries'')
                            (\<lambda>g points. case extractPointsFromGeoJSON rt g of
                                 None \<Rightarrow> None
                               | Some inner \<Rightarrow> Some (points @ inner, None))
                            [])
                  else Some []))"
  by pat_completeness auto
termination
proof (relation "measure (\<lambda>(rt, v). size v)", goal_cases)
  case 1
  show ?case by simp
next
  case (2 rt geojson geometry x z)
  have el: "x \<in> elements (js_get geometry ''geometries'')" using 2 by simp
  then have ne: "js_get geometry ''geometries'' \<noteq> Undefined" by auto
  have "size x < Suc (size (js_get geometry ''geometries''))"
    using el by (rule size_elements)
  also have "\<dots> \<le> size geometry" using size_js_get[OF ne] by simp
  also have "\<dots> \<le> size geojson" using 2(2) size_js_get_le[of geojson "''geometry''"] by (simp split: if_splits)
  finally show ?case by simp
qed


declare extractPointsFromGeoJSON.simps [simp del]

text \<open>A value none of whose objects has an own property \<^verbatim>\<open>length\<close>.\<close>

fun arraylike_free :: "jsval \<Rightarrow> bool" where
  "arraylike_free (Arr xs) = (\<forall>x\<in>set xs. arraylike_free x)"
| "arraylike_free (Obj kv) = (map_of kv ''length'' = None \<and> (\<forall>p\<in>set kv. arraylike_free (snd p)))"
| "arraylike_free _ = True"

section \<open>Rows and role names\<close>

text \<open>
  A row of the host table: its row id (the host assigns an integer) and its other
  properties, keyed by role name once the host has mapped the columns.
\<close>

record row =
  row_id :: int
  cells :: "(string \<times> jsval) list"

abbreviation Name :: string where "Name \<equiv> ''Name''"
abbreviation Longitude :: string where "Longitude \<equiv> ''Longitude''"
abbreviation GeoJSON :: string where "GeoJSON \<equiv> ''GeoJSON''"
abbreviation Latitude :: string where "Latitude \<equiv> ''Latitude''"
abbreviation Geocode :: string where "Geocode \<equiv> ''Geocode''"
abbreviation Address :: string where "Address \<equiv> ''Address''"
abbreviation GeocodedAddress :: string where "GeocodedAddress \<equiv> ''GeocodedAddress''"
abbreviation Style :: string where "Style \<equiv> ''Style''"
abbreviation Layer :: string where "Layer \<equiv> ''Layer''"
abbreviation Popup :: string where "Popup \<equiv> ''Popup''"
abbreviation Label :: string where "Label \<equiv> ''Label''"
abbreviation LabelStyle :: string where "LabelStyle \<equiv> ''LabelStyle''"

text \<open>\<^verbatim>\<open>k in o\<close>, \<^verbatim>\<open>o[k]\<close> and \<^verbatim>\<open>o[k] = v\<close> on the own properties of an object.\<close>

definition has_key :: "(string \<times> jsval) list \<Rightarrow> string \<Rightarrow> bool" where
  "has_key kv k = (map_of kv k \<noteq> None)"

definition own_prop :: "(string \<times> jsval) list \<Rightarrow> string \<Rightarrow> jsval" where
  "own_prop kv k = (case map_of kv k of Some v \<Rightarrow> v | None \<Rightarrow> Undefined)"

fun obj_set :: "string \<Rightarrow> jsval \<Rightarrow> (string \<times> jsval) list \<Rightarrow> (string \<times> jsval) list" where
  "obj_set k v [] = [(k, v)]"
| "obj_set k v ((k', v') # kv) = (if k = k' then (k, v) # kv else (k', v') # obj_set k v kv)"

definition cell :: "row \<Rightarrow> string \<Rightarrow> jsval" where
  "cell r k = own_prop (cells r) k"

definition set_cell :: "string \<Rightarrow> jsval \<Rightarrow> row \<Rightarrow> row" where
  "set_cell k v r = r\<lparr>cells := obj_set k v (cells r)\<rparr>"

section \<open>Loose equality\<close>

text \<open>
  \<^verbatim>\<open>a == b\<close> for two values read from different properties of a row. Two objects are
  equal only if they are the same object, which values of different properties of host
  data are not. Otherwise a boolean counts as its number, an object as its string, a
  number and a string are compared as numbers.
\<close>

fun is_object :: "jsval \<Rightarrow> bool" where
  "is_object (Arr xs) = True"
| "is_object (Obj kv) = True"
| "is_object _ = False"

fun to_primitive :: "runtime \<Rightarrow> jsval \<Rightarrow> jsval" where
  "to_primitive rt (Bool b) = Num (Fin (if b then 1 else 0))"
| "to_primitive rt (Arr xs) = Str (ToString rt (Arr xs))"
| "to_primitive rt (Obj kv) = Str (ToString rt (Obj kv))"
| "to_primitive rt v = v"

fun prim_eq :: "runtime \<Rightarrow> jsval \<Rightarrow> jsval \<Rightarrow> bool" where
  "prim_eq rt (Num x) (Num y) = num_eq x y"
| "prim_eq rt (Str s) (Str t) = (s = t)"
| "prim_eq rt (Num x) (Str t) = num_eq x (string_toNumber rt t)"
| "prim_eq rt (Str s) (Num y) = num_eq (string_toNumber rt s) y"
| "prim_eq rt _ _ = False"

definition loose_eq :: "runtime \<Rightarrow> jsval \<Rightarrow> jsval \<Rightarrow> bool" where
  "loose_eq rt a b =
     (if nullish a \<or> nullish b then nullish a \<and> nullish b
      else if is_object a \<and> is_object b then False
      else prim_eq rt (to_primitive rt a) (to_primitive rt b))"

section \<open>The geocoding scan\<close>

text \<open>
  What the scan does to the outside is a log of events, in order: a request to the
  geocoder, an \<^verbatim>\<open>UpdateRecord\<close> action sent to the host, a delay. The geocoder and the
  host document are outside the repository; their answers are parameters, and may depend
  on everything that happened before (the log so far). A request or an action is logged
  when it is issued, whether it then succeeds or is rejected.
\<close>

datatype event =
    GeocodeRequest jsval
  | UpdateRecord jsval int "(string \<times> jsval) list"
  | Delay nat

record host =
  geocoder_geocode :: "event list \<Rightarrow> jsval \<Rightarrow> exn + jsval"
  applyUserActions :: "event list \<Rightarrow> event \<Rightarrow> exn option"

text \<open>\<^verbatim>\<open>geocode(address)\<close>: the first result's \<^verbatim>\<open>center\<close>, or the falsy first result.\<close>

definition geocode :: "host \<Rightarrow> runtime \<Rightarrow> event list \<Rightarrow> jsval \<Rightarrow> (exn + jsval) \<times> event list" where
  "geocode h rt hist address =
     (case geocoder_geocode h hist address of
        Inl e \<Rightarrow> (Inl e, hist @ [GeocodeRequest address])
      | Inr results \<Rightarrow>
          if nullish results then (Inl TypeError, hist @ [GeocodeRequest address])
          else let v = js_index rt results 0
               in (Inr (if truthy v then js_get v ''center'' else v),
                   hist @ [GeocodeRequest address]))"

text \<open>\<^verbatim>\<open>result?.k ?? null\<close>.\<close>

definition opt_get_or_null :: "jsval \<Rightarrow> string \<Rightarrow> jsval" where
  "opt_get_or_null result k =
     (let v = (if nullish result then Undefined else js_get result k)
      in if nullish v then Null else v)"

text \<open>The object literal of the update: computed keys, then the spread of the cache entry.\<close>

definition update_fields ::
  "runtime \<Rightarrow> (string \<times> jsval) list \<Rightarrow> jsval \<Rightarrow> jsval \<Rightarrow> (string \<times> jsval) list" where
  "update_fields rt mappings result address =
     (let o1 = obj_set (ToString rt (own_prop mappings Longitude)) (opt_get_or_null result ''lng'') [];
          o2 = obj_set (ToString rt (own_prop mappings Latitude)) (opt_get_or_null result ''lat'') o1
      in if has_key mappings GeocodedAddress \<and> truthy (own_prop mappings GeocodedAddress)
         then obj_set (ToString rt (own_prop mappings GeocodedAddress)) address o2
         else o2)"

datatype control = Break | Continue | Raise exn

text \<open>Lines 160 to 162: the coordinates are cleared on the row object itself.\<close>

definition clear_coordinates :: "row \<Rightarrow> row" where
  "clear_coordinates record =
     set_cell GeoJSON Null (set_cell Latitude Null (set_cell Longitude Null record))"

text \<open>Lines 168 to 175: geocode, write back, wait.\<close>

definition resolve ::
  "host \<Rightarrow> runtime \<Rightarrow> jsval \<Rightarrow> (string \<times> jsval) list \<Rightarrow> row \<Rightarrow> jsval \<Rightarrow> event list
     \<Rightarrow> control \<times> row \<times> event list" where
  "resolve h rt tableId mappings record address hist =
     (case geocode h rt hist address of
        (Inl e, hist1) \<Rightarrow> (Raise e, record, hist1)
      | (Inr result, hist1) \<Rightarrow>
          let action = UpdateRecord tableId (row_id record)
                         (update_fields rt mappings result address)
          in case applyUserActions h hist1 action of
               Some e \<Rightarrow> (Raise e, record, hist1 @ [action])
             | None \<Rightarrow> (Continue, record, hist1 @ [action, Delay 1000]))"

text \<open>One turn of the loop of \<^verbatim>\<open>scan\<close>, on one row.\<close>

definition scan_record ::
  "host \<Rightarrow> runtime \<Rightarrow> jsval \<Rightarrow> (string \<times> jsval) list \<Rightarrow> row \<Rightarrow> event list
     \<Rightarrow> control \<times> row \<times> event list" where
  "scan_record h rt tableId mappings record hist =
     (if \<not> has_key (cells record) Geocode then (Break, record, hist)
      else if \<not> truthy (cell record Geocode) then (Continue, record, hist)
      else let address = cell record Address in
        if truthy (cell record GeocodedAddress)
           \<and> loose_eq rt (cell record GeocodedAddress) (cell record Address)
        then (Continue, record, hist)
        else let record' = (if truthy (cell record GeocodedAddress)
                            then clear_coordinates record else record)
          in if truthy address \<and> \<not> truthy (cell record' Longitude)
             then resolve h rt tableId mappings record' address hist
             else (Continue, record', hist))"

text \<open>
  \<^verbatim>\<open>scan(tableId, records, mappings)\<close>: the rows as the scan leaves them, the log, and the
  exception the returned promise is rejected with, if any.
\<close>

fun scan_loop ::
  "host \<Rightarrow> runtime \<Rightarrow> jsval \<Rightarrow> (string \<times> jsval) list \<Rightarrow> row list \<Rightarrow> event list
     \<Rightarrow> row list \<times> event list \<times> exn option" where
  "scan_loop h rt tableId mappings [] hist = ([], hist, None)"
| "scan_loop h rt tableId mappings (record # records) hist =
     (case scan_record h rt tableId mappings record hist of
        (Break, record', hist') \<Rightarrow> (record' # records, hist', None)
      | (Raise e, record', hist') \<Rightarrow> (record' # records, hist', Some e)
      | (Continue, record', hist') \<Rightarrow>
          (case scan_loop h rt tableId mappings records hist' of
             (records', hist'', out) \<Rightarrow> (record' # records', hist'', out)))"

definition scan ::
  "bool \<Rightarrow> host \<Rightarrow> runtime \<Rightarrow> jsval \<Rightarrow> row list \<Rightarrow> (string \<times> jsval) list \<Rightarrow> event list
     \<Rightarrow> row list \<times> event list \<times> exn option" where
  "scan writeAccess h rt tableId records mappings hist =
     (if \<not> writeAccess then (records, hist, None)
      else scan_loop h rt tableId mappings records hist)"

section \<open>Reading a record\<close>

text \<open>
  \<^verbatim>\<open>parseValue(v)\<close>. A call of \<^verbatim>\<open>startsWith\<close> on a value that is not a string, and a
  property read on the \<^verbatim>\<open>null\<close> that \<^verbatim>\<open>JSON.parse\<close> can return, raise a TypeError.
  \<^verbatim>\<open>s.slice(2, s.length - 1)\<close> drops the first two characters and the last one.
\<close>

definition parseValue :: "runtime \<Rightarrow> jsval \<Rightarrow> exn + jsval" where
  "parseValue rt v =
     (if is_object v \<and> truthy (js_get v ''value'') then
        (case js_get v ''value'' of
           Str s \<Rightarrow>
             if take 2 s = ''V('' then
               (case JSON_parse rt (take (length s - 3) (drop 2 s)) of
                  None \<Rightarrow> Inl SyntaxError
                | Some payload \<Rightarrow>
                    if nullish payload then Inl TypeError
                    else if truthy (js_get payload ''remote'') then Inr (js_get payload ''remote'')
                    else if truthy (js_get payload ''local'') then Inr (js_get payload ''local'')
                    else if truthy (js_get payload ''parent'') then Inr (js_get payload ''parent'')
                    else Inr payload)
             else Inr v
         | _ \<Rightarrow> Inl TypeError)
      else Inr v)"

record info =
  i_id :: int
  i_name :: jsval
  i_lng :: jsval
  i_lat :: jsval
  i_geojson :: jsval
  i_style :: jsval
  i_layer :: jsval
  i_label :: jsval
  i_labelStyle :: jsval

definition and_then :: "exn + 'a \<Rightarrow> ('a \<Rightarrow> exn + 'b) \<Rightarrow> exn + 'b" where
  "and_then x f = (case x of Inl e \<Rightarrow> Inl e | Inr a \<Rightarrow> f a)"

text \<open>\<^verbatim>\<open>k in rec ? parseValue(rec[k]) : null\<close>.\<close>

definition optional_cell :: "runtime \<Rightarrow> row \<Rightarrow> string \<Rightarrow> exn + jsval" where
  "optional_cell rt rec k =
     (if has_key (cells rec) k then parseValue rt (cell rec k) else Inr Null)"

definition getInfo :: "runtime \<Rightarrow> row \<Rightarrow> exn + info" where
  "getInfo rt rec =
     and_then (parseValue rt (cell rec Name)) (\<lambda>name.
     and_then (parseValue rt (cell rec Longitude)) (\<lambda>lng.
     and_then (parseValue rt (cell rec Latitude)) (\<lambda>lat.
     and_then (parseValue rt (cell rec GeoJSON)) (\<lambda>geojson.
     and_then (optional_cell rt rec Style) (\<lambda>style.
     and_then (optional_cell rt rec Layer) (\<lambda>layer.
     and_then (optional_cell rt rec Label) (\<lambda>label.
     and_then (optional_cell rt rec LabelStyle) (\<lambda>labelStyle.
       Inr \<lparr>i_id = row_id rec, i_name = name, i_lng = lng, i_lat = lat,
            i_geojson = geojson, i_style = style, i_layer = layer, i_label = label,
            i_labelStyle = labelStyle\<rparr>))))))))"

section \<open>Popup content\<close>

text \<open>
  \<^verbatim>\<open>rawRec[col]\<close> on a row as the host sent it. The row id is its property \<^verbatim>\<open>id\<close>. A
  name that is not a property of the row itself but names a member of
  \<^verbatim>\<open>Object.prototype\<close> reads that member: a built-in function or the prototype object,
  which is not data. Any other name reads \<^verbatim>\<open>undefined\<close>.
\<close>

definition reads_inherited :: "row \<Rightarrow> string \<Rightarrow> bool" where
  "reads_inherited r k =
     (k \<noteq> ''id'' \<and> \<not> has_key (cells r) k \<and> k \<in> set inherited_keys)"

definition raw_cell :: "row \<Rightarrow> string \<Rightarrow> jsval" where
  "raw_cell r k = (if k = ''id'' then Num (Fin (real_of_int (row_id r))) else cell r k)"

text \<open>
  The loop of \<^verbatim>\<open>buildPopupContent\<close> over the mapped popup columns. An inherited
  member passes \<^verbatim>\<open>parseValue\<close> as it is (a function is not of type \<^verbatim>\<open>object\<close>, the
  prototype object has no \<^verbatim>\<open>value\<close>), is neither \<^verbatim>\<open>null\<close> nor the empty string, and so
  gets a line with its string.
\<close>

fun popup_rows :: "runtime \<Rightarrow> row \<Rightarrow> jsval list \<Rightarrow> string \<Rightarrow> exn + string" where
  "popup_rows rt rawRec [] html = Inr html"
| "popup_rows rt rawRec (col # cols) html =
     (if reads_inherited rawRec (ToString rt col)
      then popup_rows rt rawRec cols
             (html @ ''<br><em>'' @ sanitize rt (ToString rt col) @ '':</em> ''
                   @ sanitize rt (inherited_toString rt (ToString rt col)))
      else case parseValue rt (raw_cell rawRec (ToString rt col)) of
        Inl e \<Rightarrow> Inl e
      | Inr val \<Rightarrow>
          if nullish val \<or> val = Str [] then popup_rows rt rawRec cols html
          else popup_rows rt rawRec cols
                 (html @ ''<br><em>'' @ sanitize rt (ToString rt col) @ '':</em> ''
                       @ sanitize rt (ToString rt val)))"

definition buildPopupContent ::
  "runtime \<Rightarrow> jsval \<Rightarrow> row option \<Rightarrow> (string \<times> jsval) list option \<Rightarrow> exn + string" where
  "buildPopupContent rt name rawRec mappings =
     (case (mappings, rawRec) of
        (Some m, Some raw) \<Rightarrow>
          if \<not> has_key m Popup \<or> \<not> truthy (own_prop m Popup)
          then Inr (sanitize rt (ToString rt (if truthy name then name else Str [])))
          else let colNames = (case own_prop m Popup of Arr cols \<Rightarrow> cols | v \<Rightarrow> [v])
            in if colNames = []
               then Inr (sanitize rt (ToString rt (if truthy name then name else Str [])))
               else and_then
                      (popup_rows rt raw colNames
                         (''<div style=\"max-width:300px\">''
                          @ (if truthy name
                             then ''<strong>'' @ sanitize rt (ToString rt name) @ ''</strong>''
                             else [])))
                      (\<lambda>html. Inr (html @ ''</div>''))
      | _ \<Rightarrow> Inr (sanitize rt (ToString rt (if truthy name then name else Str []))))"

section \<open>The map and its features\<close>

text \<open>
  Leaflet's objects live outside the repository; the model keeps of each what the page
  sets and reads. A marker has the options it was made with, the icon \<^verbatim>\<open>setIcon\<close> last
  gave it, the property \<^verbatim>\<open>pane\<close> that selection assigns (absent until then) and its bound
  popup. A GeoJSON layer has the style last given to it and the layers Leaflet made of
  its geometry, of which those made by \<^verbatim>\<open>pointToLayer\<close> are markers with an icon.
  Objects are held by reference: \<^verbatim>\<open>popups\<close> and \<^verbatim>\<open>geoJSONLayers\<close> map row ids to
  references, and the reference tells the class of the object.
\<close>

datatype icon = defaultIcon | selectedIcon

record marker =
  m_latlng :: latlng
  m_title :: jsval
  m_id :: int
  m_icon :: icon
  m_options_pane :: string
  m_pane :: "string option"
  m_popup :: string

datatype sublayer = SubMarker icon | SubPath

record geolayer =
  g_style :: "(string \<times> jsval) list"
  g_sub :: "sublayer list"

datatype feature = MarkerRef nat | LayerRef nat

text \<open>The calls on Leaflet objects and on the host that selection makes, in order.\<close>

datatype call =
    SetIcon feature icon
  | SetSubIcon nat nat icon
  | SetPane nat string
  | SetStyle nat "(string \<times> jsval) list"
  | RefreshClusters
  | SetCursorPos int

text \<open>The globals of the page.\<close>

record widget =
  popups :: "int \<Rightarrow> feature option"
  geoJSONLayers :: "int \<Rightarrow> nat option"
  geoJSONStyles :: "int \<Rightarrow> jsval option"
  selectedRowId :: "int option"
  selectedTableId :: jsval
  selectedRecords :: "row list option"
  mode :: string
  writeAccess :: bool
  scanning :: bool
  marker_heap :: "nat \<Rightarrow> marker"
  layer_heap :: "nat \<Rightarrow> geolayer"
  next_ref :: nat
  markers :: "nat list"
  calls :: "call list"

section \<open>Building markers (coordinate mode)\<close>

text \<open>
  The body of the loop at lines 812 to 837, up to the point where the marker enters the
  map: what is raised, a skip, or the point and the marker made for the record. The
  literal \<^verbatim>\<open>0.01\<close> is the double next to one hundredth, which lies above it with no double
  in between, so for doubles \<^verbatim>\<open>x < 0.01\<close> is the comparison with one hundredth.
\<close>

definition in_progress :: "runtime \<Rightarrow> info \<Rightarrow> bool" where
  "in_progress rt i = (ToString rt (i_lng i) = ''...'')"

definition at_origin :: "runtime \<Rightarrow> info \<Rightarrow> bool" where
  "at_origin rt i =
     (num_less (num_abs (ToNumber rt (i_lat i))) (Fin (1 / 100))
      \<and> num_less (num_abs (ToNumber rt (i_lng i))) (Fin (1 / 100)))"

definition marker_for ::
  "runtime \<Rightarrow> (string \<times> jsval) list option \<Rightarrow> (int \<Rightarrow> row option) \<Rightarrow> int option \<Rightarrow> row
     \<Rightarrow> exn + marker option" where
  "marker_for rt mappings rawRecordsById selected rec =
     and_then (getInfo rt rec) (\<lambda>i.
       if in_progress rt i then Inr None
       else if at_origin rt i then Inr None
       else if \<not> LatLng_accepts rt (i_lat i) (i_lng i) then Inl ExternalError
       else and_then (buildPopupContent rt (i_name i) (rawRecordsById (i_id i)) mappings)
              (\<lambda>popupHtml. Inr (Some
                 \<lparr>m_latlng = LatLng (i_lat i) (i_lng i), m_title = i_name i, m_id = i_id i,
                  m_icon = (if selected = Some (i_id i) then selectedIcon else defaultIcon),
                  m_options_pane = (if selected = Some (i_id i)
                                    then ''selectedMarker'' else ''otherMarkers''),
                  m_pane = None, m_popup = popupHtml\<rparr>)))"

text \<open>\<^verbatim>\<open>points.push(pt)\<close>, \<^verbatim>\<open>markers.addLayer(marker)\<close>, \<^verbatim>\<open>popups[id] = marker\<close>.\<close>

definition add_marker :: "marker \<Rightarrow> widget \<times> latlng list \<Rightarrow> widget \<times> latlng list" where
  "add_marker m = (\<lambda>(w, points).
     (w\<lparr>marker_heap := (marker_heap w)(next_ref w := m),
        markers := markers w @ [next_ref w],
        popups := (popups w)(m_id m := Some (MarkerRef (next_ref w))),
        next_ref := Suc (next_ref w)\<rparr>,
      points @ [m_latlng m]))"

text \<open>The markers the records of a batch give, in order.\<close>

fun new_markers ::
  "runtime \<Rightarrow> (string \<times> jsval) list option \<Rightarrow> (int \<Rightarrow> row option) \<Rightarrow> int option
     \<Rightarrow> row list \<Rightarrow> marker list" where
  "new_markers rt mappings rawRecordsById selected [] = []"
| "new_markers rt mappings rawRecordsById selected (rec # data) =
     (case marker_for rt mappings rawRecordsById selected rec of
        Inr (Some m) \<Rightarrow> m # new_markers rt mappings rawRecordsById selected data
      | _ \<Rightarrow> new_markers rt mappings rawRecordsById selected data)"

text \<open>
  The loop itself. Nothing in it catches: what a record's turn raises leaves the loop and
  \<^verbatim>\<open>updateMap\<close>, before \<^verbatim>\<open>map.addLayer(markers)\<close>; the result is then the exception.
\<close>

fun build_markers ::
  "runtime \<Rightarrow> (string \<times> jsval) list option \<Rightarrow> (int \<Rightarrow> row option) \<Rightarrow> row list
     \<Rightarrow> widget \<times> latlng list \<Rightarrow> exn + widget \<times> latlng list" where
  "build_markers rt mappings rawRecordsById [] st = Inr st"
| "build_markers rt mappings rawRecordsById (rec # data) st =
     (case marker_for rt mappings rawRecordsById (selectedRowId (fst st)) rec of
        Inl e \<Rightarrow> Inl e
      | Inr None \<Rightarrow> build_markers rt mappings rawRecordsById data st
      | Inr (Some m) \<Rightarrow> build_markers rt mappings rawRecordsById data (add_marker m st))"

section \<open>Selection\<close>

definition setIcon :: "nat \<Rightarrow> icon \<Rightarrow> widget \<Rightarrow> widget" where
  "setIcon r ic w =
     w\<lparr>marker_heap := (marker_heap w)(r := (marker_heap w r)\<lparr>m_icon := ic\<rparr>),
       calls := calls w @ [SetIcon (MarkerRef r) ic]\<rparr>"

definition set_pane :: "nat \<Rightarrow> string \<Rightarrow> widget \<Rightarrow> widget" where
  "set_pane r p w =
     w\<lparr>marker_heap := (marker_heap w)(r := (marker_heap w r)\<lparr>m_pane := Some p\<rparr>),
       calls := calls w @ [SetPane r p]\<rparr>"

text \<open>
  \<^verbatim>\<open>selectMaker(id)\<close>: what it returns or raises, and the state it leaves. A GeoJSON layer
  has no \<^verbatim>\<open>setIcon\<close>, so the call on one raises a TypeError. \<^verbatim>\<open>grist.setCursorPos\<close> is
  taken to be offered by the host; its rejection is swallowed.
\<close>

definition selectMaker :: "int \<Rightarrow> widget \<Rightarrow> (exn + feature option) \<times> widget" where
  "selectMaker rid w =
     (case (case selectedRowId w of None \<Rightarrow> None | Some p \<Rightarrow> popups w p) of
        Some (LayerRef r) \<Rightarrow> (Inl TypeError, w)
      | previouslyClicked \<Rightarrow>
          let w1 = (case previouslyClicked of
                      Some (MarkerRef r) \<Rightarrow> set_pane r ''otherMarkers'' (setIcon r defaultIcon w)
                    | _ \<Rightarrow> w)
          in case popups w1 rid of
               None \<Rightarrow> (Inr None, w1)
             | Some (LayerRef r) \<Rightarrow> (Inl TypeError, w1\<lparr>selectedRowId := Some rid\<rparr>)
             | Some (MarkerRef r) \<Rightarrow>
                 let w2 = set_pane r ''selectedMarker''
                            (setIcon r selectedIcon (w1\<lparr>selectedRowId := Some rid\<rparr>))
                 in (Inr (Some (MarkerRef r)),
                     w2\<lparr>calls := calls w2 @ [RefreshClusters, SetCursorPos rid]\<rparr>))"

text \<open>
  \<^verbatim>\<open>Object.assign(target, source)\<close>: the own properties of the source, in their order, each
  assigned to the target. A property of an object is the first entry of its key. An
  assignment to \<^verbatim>\<open>__proto__\<close> reaches the setter of \<^verbatim>\<open>Object.prototype\<close> and makes no own
  property; the prototype it may install is not part of the model.
\<close>

fun own_keys :: "(string \<times> jsval) list \<Rightarrow> string list" where
  "own_keys [] = []"
| "own_keys ((k, v) # kv) = k # filter (\<lambda>k'. k' \<noteq> k) (own_keys kv)"

fun entries :: "runtime \<Rightarrow> jsval \<Rightarrow> (string \<times> jsval) list" where
  "entries rt (Obj kv) = kv"
| "entries rt (Arr xs) = map (\<lambda>i. (number_toString rt (Fin (real i)), xs ! i)) [0..<length xs]"
| "entries rt (Str s) = map (\<lambda>i. (number_toString rt (Fin (real i)), Str [s ! i])) [0..<length s]"
| "entries rt _ = []"

definition Object_assign ::
  "runtime \<Rightarrow> (string \<times> jsval) list \<Rightarrow> jsval \<Rightarrow> (string \<times> jsval) list" where
  "Object_assign rt target source =
     fold (\<lambda>k acc. if k = ''__proto__'' then acc
                    else obj_set k (own_prop (entries rt source) k) acc)
          (own_keys (entries rt source)) target"

text \<open>\<^verbatim>\<open>geoJSONStyles[id] || {}\<close>.\<close>

definition style_of :: "widget \<Rightarrow> int option \<Rightarrow> jsval" where
  "style_of w rid =
     (case (case rid of None \<Rightarrow> None | Some i \<Rightarrow> geoJSONStyles w i) of
        Some v \<Rightarrow> if truthy v then v else Obj []
      | None \<Rightarrow> Obj [])"

fun sub_setIcon :: "icon \<Rightarrow> sublayer \<Rightarrow> sublayer" where
  "sub_setIcon ic (SubMarker old) = SubMarker ic"
| "sub_setIcon ic SubPath = SubPath"

text \<open>
  \<^verbatim>\<open>layer.setStyle(style)\<close> followed by \<^verbatim>\<open>layer.eachLayer(l => l.setIcon && l.setIcon(icon))\<close>.
\<close>

definition sub_calls :: "nat \<Rightarrow> icon \<Rightarrow> sublayer list \<Rightarrow> call list" where
  "sub_calls r ic subs =
     concat (map (\<lambda>j. case subs ! j of SubMarker old \<Rightarrow> [SetSubIcon r j ic] | SubPath \<Rightarrow> [])
               [0..<length subs])"

definition restyle_layer :: "nat \<Rightarrow> (string \<times> jsval) list \<Rightarrow> icon \<Rightarrow> widget \<Rightarrow> widget" where
  "restyle_layer r style ic w =
     w\<lparr>layer_heap := (layer_heap w)
          (r := \<lparr>g_style = style, g_sub = map (sub_setIcon ic) (g_sub (layer_heap w r))\<rparr>),
       calls := calls w @ SetStyle r style # sub_calls r ic (g_sub (layer_heap w r))\<rparr>"

definition unselected_style :: "runtime \<Rightarrow> jsval \<Rightarrow> (string \<times> jsval) list" where
  "unselected_style rt custom =
     Object_assign rt [(''opacity'', Num (Fin (3 / 10))), (''fillOpacity'', Num (Fin (3 / 10)))] custom"

definition selected_style :: "runtime \<Rightarrow> jsval \<Rightarrow> (string \<times> jsval) list" where
  "selected_style rt custom =
     Object_assign rt [(''opacity'', Num (Fin (6 / 10))), (''fillOpacity'', Num (Fin (6 / 10)))] custom"

definition selectGeoJSONFeature :: "runtime \<Rightarrow> int \<Rightarrow> widget \<Rightarrow> nat option \<times> widget" where
  "selectGeoJSONFeature rt rid w =
     (let w1 = (case (case selectedRowId w of None \<Rightarrow> None | Some p \<Rightarrow> geoJSONLayers w p) of
                  Some r \<Rightarrow> restyle_layer r (unselected_style rt (style_of w (selectedRowId w)))
                              defaultIcon w
                | None \<Rightarrow> w)
      in case geoJSONLayers w1 rid of
           None \<Rightarrow> (None, w1)
         | Some r \<Rightarrow>
             let w2 = restyle_layer r (selected_style rt (style_of w1 (Some rid))) selectedIcon
                        (w1\<lparr>selectedRowId := Some rid\<rparr>)
             in (Some r, w2\<lparr>calls := calls w2 @ [SetCursorPos rid]\<rparr>))"

section \<open>Triggers\<close>

text \<open>
  \<^verbatim>\<open>scanOnNeed(mappings)\<close>. The scan runs over the row objects of \<^verbatim>\<open>selectedRecords\<close>
  themselves. Whether its promise is fulfilled or rejected, the handler attached to it
  does the same: it clears \<^verbatim>\<open>scanning\<close>. The scan is taken as one step, so what other
  handlers do while it waits is not modelled.
\<close>

definition scanOnNeed ::
  "host \<Rightarrow> runtime \<Rightarrow> (string \<times> jsval) list \<Rightarrow> event list \<Rightarrow> widget \<Rightarrow> widget \<times> event list" where
  "scanOnNeed h rt mappings hist w =
     (case selectedRecords w of
        Some records \<Rightarrow>
          if \<not> scanning w \<and> truthy (selectedTableId w)
          then (case scan (writeAccess w) h rt (selectedTableId w) records mappings hist of
                  (records', hist', out) \<Rightarrow>
                    (w\<lparr>selectedRecords := Some records', scanning := False\<rparr>, hist'))
          else (w, hist)
      | None \<Rightarrow> (w, hist))"

text \<open>
  \<^verbatim>\<open>selectOnMap(rec, mappings)\<close>, up to the call of \<^verbatim>\<open>updateMap\<close> it ends with: the state
  it leaves and the data it hands to \<^verbatim>\<open>updateMap\<close> (\<open>None\<close> for \<^verbatim>\<open>null\<close>), if it calls
  it at all.
\<close>

definition selectOnMap :: "row \<Rightarrow> widget \<Rightarrow> widget \<times> row list option option" where
  "selectOnMap rec w =
     (if selectedRowId w = Some (row_id rec) then (w, None)
      else (w\<lparr>selectedRowId := Some (row_id rec)\<rparr>,
            Some (if mode w = ''single'' then Some [rec] else None)))"

text \<open>
  Markers are told apart by reference: the entries of \<^verbatim>\<open>popups\<close> name objects made so
  far, and no two row ids name the same marker.
\<close>

definition distinct_markers :: "widget \<Rightarrow> bool" where
  "distinct_markers w =
     ((\<forall>k r. popups w k = Some (MarkerRef r) \<longrightarrow> r < next_ref w)
      \<and> (\<forall>k k' r. popups w k = Some (MarkerRef r) \<and> popups w k' = Some (MarkerRef r) \<longrightarrow> k = k'))"

section \<open>Examples\<close>

text \<open>
  To run the model on concrete inputs the parameters need values. This runtime formats
  only the numbers the examples use, reads the empty string as zero and every other
  string as NaN, parses no JSON text, and lets \<^verbatim>\<open>L.LatLng\<close> accept exactly pairs of finite
  numbers.
\<close>

definition plain_number :: "jsval \<Rightarrow> bool" where
  "plain_number v = (case v of Num (Fin x) \<Rightarrow> True | _ \<Rightarrow> False)"

definition test_runtime :: runtime where
  "test_runtime = \<lparr>
     number_toString = (\<lambda>n. case n of NaN \<Rightarrow> ''NaN'' | Fin x \<Rightarrow> (if x = 0 then ''0'' else if x = 1 then ''1'' else ''#'')
                           | PosInf \<Rightarrow> ''Infinity'' | NegInf \<Rightarrow> ''-Infinity''),
     string_toNumber = (\<lambda>s. if s = [] then Fin 0 else NaN),
     JSON_parse = (\<lambda>s. None),
     LatLng_accepts = (\<lambda>a b. plain_number a \<and> plain_number b),
     sanitize = (\<lambda>s. s),
     inherited_toString = (\<lambda>k. if k = ''__proto__'' then ''[object Object]''
                                else ''function () { [native code] }'') \<rparr>"

text \<open>
  A Feature whose MultiPoint has a position that is not a pair, and a GeometryCollection
  that has a \<^verbatim>\<open>coordinates\<close> member and whose \<^verbatim>\<open>geometries\<close> is an object with an infinite
  \<^verbatim>\<open>length\<close>.
\<close>

definition broken_line :: jsval where
  "broken_line = Obj [(''type'', Str ''Feature''), (''geometry'',
      Obj [(''type'', Str ''MultiPoint''),
           (''coordinates'', Arr [Arr [Num (Fin 3), Num (Fin 4)], Bool True, Arr [Num (Fin 5), Num (Fin 6)]])])]"

definition endless_collection :: jsval where
  "endless_collection = Obj [(''type'', Str ''GeometryCollection''), (''coordinates'', Bool True),
     (''geometries'', Obj [(''length'', Num PosInf)])]"

text \<open>
  A geocoder and a host document: the geocoder fails on the address \<^verbatim>\<open>nowhere\<close> and
  places every other address at the same point; every update is accepted. Then a
  mapping of the roles, and rows in the states the scan distinguishes.
\<close>

definition test_host :: host where
  "test_host = \<lparr>
     geocoder_geocode = (\<lambda>hist address.
        if address = Str ''nowhere'' then Inl ExternalError
        else Inr (Arr [Obj [(''center'', Obj [(''lat'', Num (Fin 48)), (''lng'', Num (Fin 2))])]])),
     applyUserActions = (\<lambda>hist action. None) \<rparr>"

definition test_mappings :: "(string \<times> jsval) list" where
  "test_mappings = [(Longitude, Str ''Lon''), (Latitude, Str ''Lat''),
                    (GeocodedAddress, Str ''Cache'')]"

definition row_cached :: row where
  "row_cached = \<lparr>row_id = 4, cells = [(Geocode, Bool True), (Address, Str ''Paris''),
     (GeocodedAddress, Str ''Paris''), (Longitude, Null), (Latitude, Null)]\<rparr>"

definition row_stale :: row where
  "row_stale = \<lparr>row_id = 5, cells = [(Geocode, Bool True), (Address, Str ''Lyon''),
     (GeocodedAddress, Str ''Paris''), (Longitude, Num (Fin 2)), (Latitude, Num (Fin 48))]\<rparr>"

definition row_new :: row where
  "row_new = \<lparr>row_id = 6, cells = [(Geocode, Bool True), (Address, Str ''Nice''),
     (Longitude, Null), (Latitude, Null)]\<rparr>"

definition row_unflagged :: row where
  "row_unflagged = \<lparr>row_id = 7, cells = [(Geocode, Bool False), (Address, Str ''Nice''),
     (Longitude, Null), (Latitude, Null)]\<rparr>"

definition row_unmapped :: row where
  "row_unmapped = \<lparr>row_id = 8, cells = [(Address, Str ''Nice''),
     (Longitude, Null), (Latitude, Null)]\<rparr>"

definition row_nowhere :: row where
  "row_nowhere = \<lparr>row_id = 9, cells = [(Geocode, Bool True), (Address, Str ''nowhere''),
     (Longitude, Null), (Latitude, Null)]\<rparr>"

definition nice_events :: "event list" where
  "nice_events = [GeocodeRequest (Str ''Nice''),
     UpdateRecord (Str ''Places'') 6
       [(''Lon'', Num (Fin 2)), (''Lat'', Num (Fin 48)), (''Cache'', Str ''Nice'')],
     Delay 1000]"

text \<open>
  A widget before its first render, and the three records of the specification's
  scenario: one at the origin, one in the middle of geocoding, one placed.
\<close>

definition blank_marker :: marker where
  "blank_marker = \<lparr>m_latlng = LatLng Undefined Undefined, m_title = Undefined, m_id = 0,
     m_icon = defaultIcon, m_options_pane = [], m_pane = None, m_popup = []\<rparr>"

definition empty_widget :: widget where
  "empty_widget = \<lparr>popups = (\<lambda>k. None), geoJSONLayers = (\<lambda>k. None),
     geoJSONStyles = (\<lambda>k. None), selectedRowId = None,
     selectedTableId = Null, selectedRecords = None, mode = ''multi'', writeAccess = True,
     scanning = False,
     marker_heap = (\<lambda>r. blank_marker), layer_heap = (\<lambda>r. \<lparr>g_style = [], g_sub = []\<rparr>),
     next_ref = 0, markers = [], calls = []\<rparr>"



definition row_placed :: row where
  "row_placed = \<lparr>row_id = 3, cells = [(Name, Str ''C''), (Longitude, Num (Fin 10)), (Latitude, Num (Fin 20))]\<rparr>"




text \<open>
  A widget with the markers of rows 1 and 2, and one with the GeoJSON layers of rows 1
  and 2 (a point and a path each), row 2 with a custom style.
\<close>

definition two_markers :: widget where
  "two_markers = empty_widget\<lparr>
     popups := (\<lambda>k. if k = 1 then Some (MarkerRef 0) else if k = 2 then Some (MarkerRef 1) else None),
     markers := [0, 1], next_ref := 2\<rparr>"

definition two_layers :: widget where
  "two_layers = empty_widget\<lparr>
     popups := (\<lambda>k. if k = 1 then Some (LayerRef 0) else if k = 2 then Some (LayerRef 1) else None),
     geoJSONLayers := (\<lambda>k. if k = 1 then Some 0 else if k = 2 then Some 1 else None),
     geoJSONStyles := (\<lambda>k. if k = 2 then Some (Obj [(''color'', Str ''red'')]) else None),
     layer_heap := (\<lambda>r. \<lparr>g_style = [(''opacity'', Num (Fin (3 / 10))), (''fillOpacity'', Num (Fin (3 / 10)))],
                          g_sub = [SubMarker defaultIcon, SubPath]\<rparr>)\<rparr>"

section \<open>Properties of the point extractor\<close>

lemma for_arraylike_no_length:
  "map_of kv ''length'' = None \<Longrightarrow> for_arraylike rt kv body s = Some (s, None)"
  unfolding for_arraylike_def
  by (subst while_option_unfold) (simp add: arraylike_cond_def)

lemma iterate_total:
  "(\<And>x s. x \<in> set xs \<Longrightarrow> \<exists>r. body x s = Some r) \<Longrightarrow> \<exists>r. iterate body xs s = Some r"
proof (induction xs arbitrary: s)
  case Nil
  show ?case by simp
next
  case (Cons x xs)
  obtain s' e where b: "body x s = Some (s', e)" using Cons.prems[of x s] by auto
  show ?case
  proof (cases e)
    case None
    with b Cons.IH[of s'] Cons.prems show ?thesis by auto
  next
    case (Some a)
    with b show ?thesis by simp
  qed
qed

lemma js_for_total:
  assumes "\<And>kv. coords = Obj kv \<Longrightarrow> map_of kv ''length'' = None"
    and "\<And>x s. x \<in> elements coords \<Longrightarrow> \<exists>r. body x s = Some r"
  shows "\<exists>r. js_for rt coords body s = Some r"
proof (cases coords)
  case (Str cs)
  have "\<exists>r. iterate body (map (\<lambda>c. Str [c]) cs) s = Some r"
    by (rule iterate_total) (use assms(2) Str in auto)
  with Str show ?thesis by (simp add: js_for_def)
next
  case (Arr xs)
  have "\<exists>r. iterate body xs s = Some r"
    by (rule iterate_total) (use assms(2) Arr in auto)
  with Arr show ?thesis by (simp add: js_for_def)
next
  case (Obj kv)
  with assms(1) show ?thesis by (simp add: js_for_def for_arraylike_no_length)
qed (simp_all add: js_for_def)

lemma arraylike_free_elements:
  "arraylike_free c \<Longrightarrow> x \<in> elements c \<Longrightarrow> arraylike_free x"
  by (cases c) auto

lemma arraylike_free_js_get: "arraylike_free v \<Longrightarrow> arraylike_free (js_get v k)"
  by (cases v) (auto split: option.splits dest!: map_of_SomeD)

lemma extractCoordinates_total:
  "arraylike_free coords \<Longrightarrow> \<exists>r. extractCoordinates rt d coords ps = Some r"
proof (induction d arbitrary: coords ps)
  case 0
  show ?case by simp
next
  case (Suc d)
  have "\<exists>r. js_for rt coords (\<lambda>c ps. extractCoordinates rt d c ps) ps = Some r"
  proof (rule js_for_total)
    fix kv assume "coords = Obj kv"
    with Suc.prems show "map_of kv ''length'' = None" by simp
  next
    fix x s assume "x \<in> elements coords"
    with Suc.prems have "arraylike_free x" by (rule arraylike_free_elements)
    then show "\<exists>r. extractCoordinates rt d x s = Some r" by (rule Suc.IH)
  qed
  then show ?case by simp
qed

lemma extractPoints_total:
  "arraylike_free geojson \<Longrightarrow> \<exists>ps. extractPointsFromGeoJSON rt geojson = Some ps"
proof (induction rt geojson rule: extractPointsFromGeoJSON.induct)
  case (1 rt geojson)
  define geometry where "geometry = (if js_get geojson ''type'' = Str ''Feature''
                           then js_get geojson ''geometry'' else geojson)"
  have free: "arraylike_free geometry"
    using "1.prems" by (simp add: geometry_def arraylike_free_js_get)
  let ?body = "\<lambda>g points. case extractPointsFromGeoJSON rt g of
                                 None \<Rightarrow> None
                               | Some inner \<Rightarrow> Some (points @ inner, None)"
  have coll: "\<exists>r. js_for rt (js_get geometry ''geometries'') ?body [] = Some r"
    if c: "truthy geojson" "truthy (js_get geojson ''type'')" "truthy geometry"
      "truthy (js_get geometry ''coordinates'')"
      "depthMap (ToString rt (js_get geometry ''type'')) = None"
      "js_get geometry ''type'' = Str ''GeometryCollection''"
  proof (rule js_for_total)
    fix kv assume "js_get geometry ''geometries'' = Obj kv"
    with arraylike_free_js_get[OF free, of "''geometries''"]
    show "map_of kv ''length'' = None" by simp
  next
    fix x s assume x: "x \<in> elements (js_get geometry ''geometries'')"
    then have "arraylike_free x"
      using arraylike_free_elements arraylike_free_js_get[OF free] by blast
    with "1.IH"[OF _ geometry_def _ _ _ x] c
    obtain ps where "extractPointsFromGeoJSON rt x = Some ps" by auto
    then show "\<exists>r. ?body x s = Some r" by simp
  qed
  show ?case
    using coll extractCoordinates_total[OF arraylike_free_js_get[OF free], of rt _ "''coordinates''" "[]"]
    by (subst extractPointsFromGeoJSON.simps)
       (auto simp: geometry_def Let_def split: option.splits depth_entry.splits)
qed


lemma iterate_all_normal:
  "(\<And>x s. x \<in> set xs \<Longrightarrow> body x s = Some (s @ f x, None)) \<Longrightarrow>
   iterate body xs s = Some (s @ concat (map f xs), None)"
  by (induction xs arbitrary: s) auto

text \<open>
  A Polygon whose coordinates are an array of rings, each an array of positions that
  \<^verbatim>\<open>L.LatLng\<close> accepts, yields one point per position, ring after ring: latitude from
  the position's second element, longitude from its first.
\<close>

lemma extractPoints_Polygon:
  assumes ty: "js_get g ''type'' = Str ''Polygon''"
    and co: "js_get g ''coordinates'' = Arr (map Arr rings)"
    and ok: "\<And>ring p. ring \<in> set rings \<Longrightarrow> p \<in> set ring \<Longrightarrow>
               \<not> nullish p \<and> LatLng_accepts rt (js_index rt p 1) (js_index rt p 0)"
  shows "extractPointsFromGeoJSON rt g =
           Some (concat (map (map (\<lambda>p. LatLng (js_index rt p 1) (js_index rt p 0))) rings))"
    and "\<exists>points. extractPointsFromGeoJSON rt g = Some points \<and>
           length points = sum_list (map length rings)"
proof -
  let ?pt = "\<lambda>p. LatLng (js_index rt p 1) (js_index rt p 0)"
  have ring: "extractCoordinates rt (Suc 0) (Arr ring) ps = Some (ps @ map ?pt ring, None)"
    if "ring \<in> set rings" for ring ps
  proof -
    have "iterate (\<lambda>c ps. extractCoordinates rt 0 c ps) ring ps
            = Some (ps @ concat (map (\<lambda>p. [?pt p]) ring), None)"
      by (rule iterate_all_normal) (use ok that in auto)
    moreover have "concat (map (\<lambda>p. [?pt p]) ring) = map ?pt ring"
      by (induction ring) auto
    ultimately show ?thesis by (simp add: js_for_def)
  qed
  have "iterate (\<lambda>c ps. extractCoordinates rt (Suc 0) c ps) (map Arr rings) []
          = Some ([] @ concat (map (\<lambda>c. case c of Arr ring \<Rightarrow> map ?pt ring | _ \<Rightarrow> []) (map Arr rings)), None)"
    by (rule iterate_all_normal) (use ring in auto)
  then have d2: "extractCoordinates rt 2 (Arr (map Arr rings)) []
          = Some (concat (map (map ?pt) rings), None)"
    by (simp add: js_for_def numeral_2_eq_2 comp_def)
  from ty have tg: "truthy g" by (cases g) auto
  show 1: "extractPointsFromGeoJSON rt g = Some (concat (map (map ?pt) rings))"
    using ty co tg d2
    by (subst extractPointsFromGeoJSON.simps) (simp add: depthMap_def)
  have "length (concat (map (map ?pt) rings)) = sum_list (map length rings)"
    by (induction rings) auto
  with 1 show "\<exists>points. extractPointsFromGeoJSON rt g = Some points \<and>
           length points = sum_list (map length rings)" by simp
qed

text \<open>
  A GeometryCollection without a truthy \<^verbatim>\<open>coordinates\<close> member yields no points,
  whatever its geometries are.
\<close>

lemma GeometryCollection_without_coordinates:
  assumes "js_get g ''type'' = Str ''GeometryCollection''"
    and "\<not> truthy (js_get g ''coordinates'')"
  shows "extractPointsFromGeoJSON rt g = Some []"
  using assms by (subst extractPointsFromGeoJSON.simps) simp

text \<open>
  With array-like objects the extractor need not return: the loop over an object whose
  \<^verbatim>\<open>length\<close> is infinite, and whose missing elements make the recursive call return the
  empty list rather than raise, has no end.
\<close>

lemma while_option_None_iff: "while_option b c s = None \<longleftrightarrow> (\<forall>k. b ((c ^^ k) s))"
  by (auto simp: while_option_def)

lemma extractPoints_may_not_return:
  "extractPointsFromGeoJSON test_runtime endless_collection = None"
proof -
  let ?kv = "[(''length'', Num PosInf)]"
  let ?body = "\<lambda>g points. case extractPointsFromGeoJSON test_runtime g of
                   None \<Rightarrow> None
                 | Some inner \<Rightarrow> Some (points @ inner, None)"
  have und: "extractPointsFromGeoJSON test_runtime Undefined = Some []"
    by (subst extractPointsFromGeoJSON.simps) simp
  have idx: "js_index test_runtime (Obj ?kv) i = Undefined" for i
    by (simp add: test_runtime_def)
  have step: "arraylike_step test_runtime ?kv ?body (i, Some ([], None))
                = (min (Suc i) max_counter, Some ([], None))" for i
    unfolding arraylike_step_def by (simp only: prod.case option.case idx und) simp
  have iter: "\<exists>i. (arraylike_step test_runtime ?kv ?body ^^ k) (0, Some ([], None))
                = (i, Some ([], None))" for k
  proof (induction k)
    case 0
    show ?case by simp
  next
    case (Suc k)
    then obtain i where "(arraylike_step test_runtime ?kv ?body ^^ k) (0, Some ([], None))
                = (i, Some ([], None))" ..
    then show ?case by (simp add: step)
  qed
  have cond: "arraylike_cond test_runtime ?kv (i, Some (([]::latlng list), None))" for i
    by (simp add: arraylike_cond_def)
  have "\<forall>k. arraylike_cond test_runtime ?kv
              ((arraylike_step test_runtime ?kv ?body ^^ k) (0, Some ([], None)))"
  proof
    fix k
    from iter[of k] obtain i where
      "(arraylike_step test_runtime ?kv ?body ^^ k) (0, Some ([], None)) = (i, Some ([], None))" ..
    then show "arraylike_cond test_runtime ?kv
              ((arraylike_step test_runtime ?kv ?body ^^ k) (0, Some ([], None)))"
      by (simp add: cond)
  qed
  then have "while_option (arraylike_cond test_runtime ?kv)
               (arraylike_step test_runtime ?kv ?body) (0, Some ([], None)) = None"
    unfolding while_option_None_iff .
  then have "for_arraylike test_runtime ?kv ?body [] = None"
    by (simp add: for_arraylike_def)
  then show ?thesis
    by (subst extractPointsFromGeoJSON.simps)
       (simp add: endless_collection_def depthMap_def inherited_keys_def js_for_def)
qed

text \<open>
  C8. The extractor is to recurse into each sub-geometry of a GeometryCollection. A
  GeometryCollection has no \<^verbatim>\<open>coordinates\<close> member, so the test
  \<^verbatim>\<open>!geometry.coordinates\<close> returns the empty list before the branch for
  \<^verbatim>\<open>GeometryCollection\<close> is reached: a collection of one Point yields no point, while
  the Point alone yields one.
\<close>

theorem GeometryCollection_yields_no_points:
  "extractPointsFromGeoJSON test_runtime
     (Obj [(''type'', Str ''GeometryCollection''),
           (''geometries'', Arr [Obj [(''type'', Str ''Point''),
                                      (''coordinates'', Arr [Num (Fin 1), Num (Fin 2)])]])])
     = Some []
   \<and> extractPointsFromGeoJSON test_runtime
       (Obj [(''type'', Str ''Point''), (''coordinates'', Arr [Num (Fin 1), Num (Fin 2)])])
     = Some [LatLng (Num (Fin 2)) (Num (Fin 1))]"
  by (simp add: extractPointsFromGeoJSON.simps depthMap_def test_runtime_def plain_number_def)

text \<open>
  C9, as stated: whenever the descent raises, the extractor returns the empty list. It
  does not: on a LineString whose second position is \<^verbatim>\<open>null\<close> the descent pushes the first
  point, raises a TypeError on the second, and the extractor returns the first point.
\<close>

theorem raised_descent_keeps_points_counterexample:
  "extractCoordinates test_runtime 1 (Arr [Arr [Num (Fin 1), Num (Fin 2)], Null]) []
     = Some ([LatLng (Num (Fin 2)) (Num (Fin 1))], Some TypeError)
   \<and> extractPointsFromGeoJSON test_runtime
       (Obj [(''type'', Str ''LineString''),
             (''coordinates'', Arr [Arr [Num (Fin 1), Num (Fin 2)], Null])])
     \<noteq> Some []"
  by (simp add: extractPointsFromGeoJSON.simps depthMap_def test_runtime_def plain_number_def
        js_for_def)

text \<open>
  C9, amended. The extractor has no exceptional result. On an input without array-like
  objects it returns a list; a geometry type that is neither in the depth table nor
  \<^verbatim>\<open>GeometryCollection\<close> yields no points, and neither does one that names a member of
  \<^verbatim>\<open>Object.prototype\<close>; and for a type of the depth table the result is exactly what the
  descent had pushed when it ended, whether it ended normally or by raising (the
  exception is caught and dropped, the points stay).
\<close>

theorem extractPoints_catches:
  assumes geom: "geometry = (if js_get geojson ''type'' = Str ''Feature''
                             then js_get geojson ''geometry'' else geojson)"
  shows "(arraylike_free geojson \<longrightarrow> (\<exists>points. extractPointsFromGeoJSON rt geojson = Some points))
    \<and> (depthMap (ToString rt (js_get geometry ''type'')) = None
         \<and> js_get geometry ''type'' \<noteq> Str ''GeometryCollection''
       \<longrightarrow> extractPointsFromGeoJSON rt geojson = Some [])
    \<and> (\<forall>d points e.
          truthy geojson \<and> truthy (js_get geojson ''type'') \<and> truthy geometry
          \<and> truthy (js_get geometry ''coordinates'')
          \<and> depthMap (ToString rt (js_get geometry ''type'')) = Some (Depth d)
          \<and> extractCoordinates rt d (js_get geometry ''coordinates'') [] = Some (points, e)
        \<longrightarrow> extractPointsFromGeoJSON rt geojson = Some points)
    \<and> (depthMap (ToString rt (js_get geometry ''type'')) = Some Inherited
       \<longrightarrow> extractPointsFromGeoJSON rt geojson = Some [])"
proof (intro conjI impI allI)
  assume "depthMap (ToString rt (js_get geometry ''type'')) = Some Inherited"
  then show "extractPointsFromGeoJSON rt geojson = Some []"
    using geom by (subst extractPointsFromGeoJSON.simps) (simp add: Let_def)
next
  assume "arraylike_free geojson"
  then show "\<exists>points. extractPointsFromGeoJSON rt geojson = Some points"
    by (rule extractPoints_total)
next
  assume "depthMap (ToString rt (js_get geometry ''type'')) = None
         \<and> js_get geometry ''type'' \<noteq> Str ''GeometryCollection''"
  then show "extractPointsFromGeoJSON rt geojson = Some []"
    using geom by (subst extractPointsFromGeoJSON.simps) (simp add: Let_def)
next
  fix d points e
  assume "truthy geojson \<and> truthy (js_get geojson ''type'') \<and> truthy geometry
          \<and> truthy (js_get geometry ''coordinates'')
          \<and> depthMap (ToString rt (js_get geometry ''type'')) = Some (Depth d)
          \<and> extractCoordinates rt d (js_get geometry ''coordinates'') [] = Some (points, e)"
  then show "extractPointsFromGeoJSON rt geojson = Some points"
    using geom by (subst extractPointsFromGeoJSON.simps) (simp add: Let_def)
qed

theorem extractPoints_catches_witness:
  "arraylike_free broken_line
   \<and> extractCoordinates test_runtime 1 (js_get (js_get broken_line ''geometry'') ''coordinates'') []
       = Some ([LatLng (Num (Fin 4)) (Num (Fin 3))], Some ExternalError)
   \<and> extractPointsFromGeoJSON test_runtime broken_line = Some [LatLng (Num (Fin 4)) (Num (Fin 3))]
   \<and> extractPointsFromGeoJSON test_runtime
        (Obj [(''type'', Str ''Circle''), (''coordinates'', Arr [Num (Fin 1), Num (Fin 2)])]) = Some []"
proof -
  have a: "arraylike_free broken_line" by (simp add: broken_line_def)
  have c: "extractCoordinates test_runtime 1 (js_get (js_get broken_line ''geometry'') ''coordinates'') []
       = Some ([LatLng (Num (Fin 4)) (Num (Fin 3))], Some ExternalError)"
    by (simp add: broken_line_def test_runtime_def plain_number_def js_for_def)
  have d: "depthMap (ToString test_runtime (js_get (js_get broken_line ''geometry'') ''type'')) = Some (Depth 1)"
    by (simp add: broken_line_def depthMap_def)
  have t: "truthy broken_line \<and> truthy (js_get broken_line ''type'')
      \<and> truthy (js_get broken_line ''geometry'')
      \<and> truthy (js_get (js_get broken_line ''geometry'') ''coordinates'')"
    by (simp add: broken_line_def)
  have g: "js_get broken_line ''geometry'' = (if js_get broken_line ''type'' = Str ''Feature''
                             then js_get broken_line ''geometry'' else broken_line)"
    by (simp add: broken_line_def)
  have u: "depthMap (ToString test_runtime (js_get (Obj [(''type'', Str ''Circle''), (''coordinates'', Arr [Num (Fin 1), Num (Fin 2)])]) ''type'')) = None"
    by (simp add: depthMap_def inherited_keys_def)
  from extractPoints_catches[OF g, of test_runtime] a c d t
  have "extractPointsFromGeoJSON test_runtime broken_line = Some [LatLng (Num (Fin 4)) (Num (Fin 3))]"
    by blast
  moreover from extractPoints_catches[of "Obj [(''type'', Str ''Circle''), (''coordinates'', Arr [Num (Fin 1), Num (Fin 2)])]"
      "Obj [(''type'', Str ''Circle''), (''coordinates'', Arr [Num (Fin 1), Num (Fin 2)])]" test_runtime] u
  have "extractPointsFromGeoJSON test_runtime
        (Obj [(''type'', Str ''Circle''), (''coordinates'', Arr [Num (Fin 1), Num (Fin 2)])]) = Some []"
    by simp
  ultimately show ?thesis using a c by simp
qed

section \<open>Properties of the geocoding scan\<close>

text \<open>
  A row on which a turn of the loop does nothing but \<^verbatim>\<open>continue\<close> can be taken out of
  the batch: the scan of the batch is the scan of the others, with the row put back in
  its place. A row on which the turn is \<^verbatim>\<open>break\<close> ends the scan: what follows it is as
  it was, and the log is that of the rows before it.
\<close>

lemma scan_loop_skip:
  assumes "\<And>hist. scan_record h rt t m r hist = (Continue, r, hist)"
  shows "scan_loop h rt t m (pre @ r # post) hist =
           (case scan_loop h rt t m (pre @ post) hist of
              (rs', hist', out) \<Rightarrow> (take (length pre) rs' @ r # drop (length pre) rs', hist', out))"
proof (induction pre arbitrary: hist)
  case Nil
  show ?case by (simp add: assms split: prod.splits)
next
  case (Cons p pre)
  obtain c p' hist1 where p: "scan_record h rt t m p hist = (c, p', hist1)"
    by (cases "scan_record h rt t m p hist") auto
  show ?case using p Cons.IH[of hist1]
    by (cases c) (auto split: prod.splits)
qed

lemma scan_loop_break:
  assumes "\<And>hist. scan_record h rt t m r hist = (Break, r, hist)"
  shows "scan_loop h rt t m (pre @ r # post) hist =
           (case scan_loop h rt t m pre hist of
              (pre', hist', out) \<Rightarrow> (pre' @ r # post, hist', out))"
proof (induction pre arbitrary: hist)
  case Nil
  show ?case by (simp add: assms)
next
  case (Cons p pre)
  obtain c p' hist1 where p: "scan_record h rt t m p hist = (c, p', hist1)"
    by (cases "scan_record h rt t m p hist") auto
  show ?case using p Cons.IH[of hist1]
    by (cases c) (auto split: prod.splits)
qed

lemma scan_skip:
  assumes "\<And>hist. scan_record h rt t m r hist = (Continue, r, hist)"
  shows "scan w h rt t (pre @ r # post) m hist =
           (case scan w h rt t (pre @ post) m hist of
              (rs', hist', out) \<Rightarrow> (take (length pre) rs' @ r # drop (length pre) rs', hist', out))"
  using scan_loop_skip[OF assms] by (simp add: scan_def)

lemma scan_break:
  assumes "\<And>hist. scan_record h rt t m r hist = (Break, r, hist)"
  shows "scan w h rt t (pre @ r # post) m hist =
           (case scan w h rt t pre m hist of
              (pre', hist', out) \<Rightarrow> (pre' @ r # post, hist', out))"
  using scan_loop_break[OF assms] by (simp add: scan_def)

text \<open>
  C2. A row whose cache value \<^verbatim>\<open>GeocodedAddress\<close> is truthy and \<^verbatim>\<open>==\<close> its \<^verbatim>\<open>Address\<close> is
  passed over: its turn of the loop leaves the row and the log as they were, so no
  geocoder request and no update is issued for it. If the row has the \<^verbatim>\<open>Geocode\<close>
  property the whole scan, with any rows before and after, is the scan of the batch
  without the row: same log, same outcome, the row unchanged in its place. If it lacks
  the property, the scan ends at it like at any such row.
\<close>

theorem scan_skips_cached:
  assumes "truthy (cell r GeocodedAddress)"
    and "loose_eq rt (cell r GeocodedAddress) (cell r Address)"
  shows "(scan_record h rt t m r hist = (Break, r, hist)
          \<or> scan_record h rt t m r hist = (Continue, r, hist))
    \<and> (has_key (cells r) Geocode \<longrightarrow>
          scan w h rt t (pre @ r # post) m hist =
            (case scan w h rt t (pre @ post) m hist of
               (rs', hist', out) \<Rightarrow>
                 (take (length pre) rs' @ r # drop (length pre) rs', hist', out)))
    \<and> (\<not> has_key (cells r) Geocode \<longrightarrow>
          scan w h rt t (pre @ r # post) m hist =
            (case scan w h rt t pre m hist of
               (pre', hist', out) \<Rightarrow> (pre' @ r # post, hist', out)))"
proof (intro conjI impI)
  show "scan_record h rt t m r hist = (Break, r, hist)
          \<or> scan_record h rt t m r hist = (Continue, r, hist)"
    using assms by (simp add: scan_record_def)
next
  assume "has_key (cells r) Geocode"
  then have "\<And>hist. scan_record h rt t m r hist = (Continue, r, hist)"
    using assms by (simp add: scan_record_def)
  then show "scan w h rt t (pre @ r # post) m hist =
            (case scan w h rt t (pre @ post) m hist of
               (rs', hist', out) \<Rightarrow>
                 (take (length pre) rs' @ r # drop (length pre) rs', hist', out))"
    by (rule scan_skip)
next
  assume "\<not> has_key (cells r) Geocode"
  then have "\<And>hist. scan_record h rt t m r hist = (Break, r, hist)"
    by (simp add: scan_record_def)
  then show "scan w h rt t (pre @ r # post) m hist =
            (case scan w h rt t pre m hist of
               (pre', hist', out) \<Rightarrow> (pre' @ r # post, hist', out))"
    by (rule scan_break)
qed

text \<open>
  C4. A row that does not have the \<^verbatim>\<open>Geocode\<close> property at all ends the scan: the rows
  after it are not examined (they are returned as they were) and the log and outcome are
  those of scanning only the rows before it. A row that has the property with a falsy
  value is skipped: the scan is that of the batch without it.
\<close>

theorem scan_break_and_skip:
  "(\<not> has_key (cells r) Geocode \<longrightarrow>
      scan w h rt t (pre @ r # post) m hist =
        (case scan w h rt t pre m hist of
           (pre', hist', out) \<Rightarrow> (pre' @ r # post, hist', out)))
   \<and> (has_key (cells r) Geocode \<and> \<not> truthy (cell r Geocode) \<longrightarrow>
        scan w h rt t (pre @ r # post) m hist =
          (case scan w h rt t (pre @ post) m hist of
             (rs', hist', out) \<Rightarrow>
               (take (length pre) rs' @ r # drop (length pre) rs', hist', out)))"
proof (intro conjI impI)
  assume "\<not> has_key (cells r) Geocode"
  then have "\<And>hist. scan_record h rt t m r hist = (Break, r, hist)"
    by (simp add: scan_record_def)
  then show "scan w h rt t (pre @ r # post) m hist =
        (case scan w h rt t pre m hist of
           (pre', hist', out) \<Rightarrow> (pre' @ r # post, hist', out))"
    by (rule scan_break)
next
  assume "has_key (cells r) Geocode \<and> \<not> truthy (cell r Geocode)"
  then have "\<And>hist. scan_record h rt t m r hist = (Continue, r, hist)"
    by (simp add: scan_record_def)
  then show "scan w h rt t (pre @ r # post) m hist =
          (case scan w h rt t (pre @ post) m hist of
             (rs', hist', out) \<Rightarrow>
               (take (length pre) rs' @ r # drop (length pre) rs', hist', out))"
    by (rule scan_skip)
qed

lemma own_prop_obj_set:
  "own_prop (obj_set k v kv) k' = (if k' = k then v else own_prop kv k')"
  by (induction kv) (auto simp: own_prop_def)

lemma cell_set_cell: "cell (set_cell k v r) k' = (if k' = k then v else cell r k')"
  by (simp add: cell_def set_cell_def own_prop_obj_set)

lemma resolve_log:
  "resolve h rt t m r address hist = (c, r', hist') \<Longrightarrow>
     r' = r \<and> (\<exists>rest. hist' = hist @ GeocodeRequest address # rest)"
  by (auto simp: resolve_def geocode_def Let_def split: sum.splits if_splits option.splits)

text \<open>
  C3. A row whose cache value is truthy and not \<^verbatim>\<open>==\<close> its \<^verbatim>\<open>Address\<close>: once past the
  \<^verbatim>\<open>Geocode\<close> tests, its \<^verbatim>\<open>Longitude\<close>, \<^verbatim>\<open>Latitude\<close> and \<^verbatim>\<open>GeoJSON\<close> are set to
  \<^verbatim>\<open>null\<close> on the row and nothing else of it changes, and the turn goes on as the
  resolution of the cleared row: with \<^verbatim>\<open>Longitude\<close> now falsy, the geocoder is asked
  whenever the address is truthy. Whenever the turn logs anything at all, the row it
  leaves is the cleared one and the first thing logged is the geocoder request for the
  row's address.
\<close>

theorem scan_clears_stale_coordinates:
  assumes "truthy (cell r GeocodedAddress)"
    and "\<not> loose_eq rt (cell r GeocodedAddress) (cell r Address)"
  shows "(has_key (cells r) Geocode \<and> truthy (cell r Geocode) \<longrightarrow>
            scan_record h rt t m r hist =
              (if truthy (cell r Address)
               then resolve h rt t m (clear_coordinates r) (cell r Address) hist
               else (Continue, clear_coordinates r, hist)))
    \<and> (\<forall>c r' hist'. scan_record h rt t m r hist = (c, r', hist') \<and> hist' \<noteq> hist \<longrightarrow>
            r' = clear_coordinates r
            \<and> (\<exists>rest. hist' = hist @ GeocodeRequest (cell r Address) # rest))
    \<and> cell (clear_coordinates r) Longitude = Null
    \<and> cell (clear_coordinates r) Latitude = Null
    \<and> cell (clear_coordinates r) GeoJSON = Null
    \<and> (\<forall>k. k \<noteq> Longitude \<and> k \<noteq> Latitude \<and> k \<noteq> GeoJSON \<longrightarrow>
            cell (clear_coordinates r) k = cell r k)"
proof (intro conjI impI allI)
  have lon: "cell (clear_coordinates r) Longitude = Null"
    by (simp add: clear_coordinates_def cell_set_cell)
  then show "cell (clear_coordinates r) Longitude = Null" .
  show "cell (clear_coordinates r) Latitude = Null"
    by (simp add: clear_coordinates_def cell_set_cell)
  show "cell (clear_coordinates r) GeoJSON = Null"
    by (simp add: clear_coordinates_def cell_set_cell)
  have eq: "scan_record h rt t m r hist =
              (if truthy (cell r Address)
               then resolve h rt t m (clear_coordinates r) (cell r Address) hist
               else (Continue, clear_coordinates r, hist))"
    if "has_key (cells r) Geocode \<and> truthy (cell r Geocode)"
    using that assms lon by (simp add: scan_record_def)
  then show "has_key (cells r) Geocode \<and> truthy (cell r Geocode) \<Longrightarrow>
            scan_record h rt t m r hist =
              (if truthy (cell r Address)
               then resolve h rt t m (clear_coordinates r) (cell r Address) hist
               else (Continue, clear_coordinates r, hist))" .
  {
    fix c r' hist'
    assume a: "scan_record h rt t m r hist = (c, r', hist') \<and> hist' \<noteq> hist"
    have g: "has_key (cells r) Geocode \<and> truthy (cell r Geocode)"
      using a by (auto simp: scan_record_def split: if_splits)
    from a eq[OF g] have ad: "truthy (cell r Address)"
      and res: "resolve h rt t m (clear_coordinates r) (cell r Address) hist = (c, r', hist')"
      by (auto split: if_splits)
    from resolve_log[OF res]
    show "r' = clear_coordinates r" and "\<exists>rest. hist' = hist @ GeocodeRequest (cell r Address) # rest"
      by auto
  }
  fix k assume "k \<noteq> Longitude \<and> k \<noteq> Latitude \<and> k \<noteq> GeoJSON"
  then show "cell (clear_coordinates r) k = cell r k"
    by (simp add: clear_coordinates_def cell_set_cell)
qed

lemma scan_loop_raise_head:
  "scan_record h rt t m r hist = (Raise e, r', hist') \<Longrightarrow>
   scan_loop h rt t m (r # rs) hist = (r' # rs, hist', Some e)"
  by simp

lemma scan_loop_rejected:
  "scan_loop h rt t m recs hist = (recs', hist', Some e) \<Longrightarrow>
   \<exists>pre r post pre' r' hist1.
     recs = pre @ r # post \<and> recs' = pre' @ r' # post \<and> length pre' = length pre
     \<and> scan_record h rt t m r hist1 = (Raise e, r', hist')"
proof (induction recs arbitrary: hist recs')
  case Nil
  then show ?case by simp
next
  case (Cons p ps)
  obtain c p' hist1 where p: "scan_record h rt t m p hist = (c, p', hist1)"
    by (cases "scan_record h rt t m p hist") auto
  show ?case
  proof (cases c)
    case Break
    with p Cons.prems show ?thesis by simp
  next
    case (Raise e')
    with p Cons.prems have "e' = e" "recs' = p' # ps" "hist1 = hist'" by auto
    with p Raise have "p # ps = [] @ p # ps \<and> recs' = [] @ p' # ps \<and> length ([]::row list) = length ([]::row list)
      \<and> scan_record h rt t m p hist = (Raise e, p', hist')" by simp
    then show ?thesis by blast
  next
    case Continue
    obtain ps' hist2 out where l: "scan_loop h rt t m ps hist1 = (ps', hist2, out)"
      by (cases "scan_loop h rt t m ps hist1") auto
    with p Continue Cons.prems have r: "recs' = p' # ps'" "hist2 = hist'" "out = Some e" by auto
    from Cons.IH[of hist1 ps'] l r obtain pre r0 post pre' r' hist3 where
      "ps = pre @ r0 # post" "ps' = pre' @ r' # post" "length pre' = length pre"
      "scan_record h rt t m r0 hist3 = (Raise e, r', hist')" by blast
    then have "p # ps = (p # pre) @ r0 # post \<and> recs' = (p' # pre') @ r' # post
       \<and> length (p' # pre') = length (p # pre) \<and> scan_record h rt t m r0 hist3 = (Raise e, r', hist')"
      using r by simp
    then show ?thesis by blast
  qed
qed

lemmas scan_eval = scan_def scan_record_def resolve_def geocode_def update_fields_def
  opt_get_or_null_def has_key_def cell_def own_prop_def loose_eq_def clear_coordinates_def
  set_cell_def test_host_def test_mappings_def test_runtime_def Let_def

lemma scan_row_new:
  "scan True test_host test_runtime (Str ''Places'') [row_new] test_mappings []
     = ([row_new], nice_events, None)"
  by (simp add: scan_eval row_new_def nice_events_def)

theorem scan_skips_cached_witness:
  "truthy (cell row_cached GeocodedAddress)
   \<and> loose_eq test_runtime (cell row_cached GeocodedAddress) (cell row_cached Address)
   \<and> scan True test_host test_runtime (Str ''Places'') [row_cached, row_new] test_mappings []
       = ([row_cached, row_new], nice_events, None)"
proof -
  have a: "truthy (cell row_cached GeocodedAddress)"
    and b: "loose_eq test_runtime (cell row_cached GeocodedAddress) (cell row_cached Address)"
    and c: "has_key (cells row_cached) Geocode"
    by (simp_all add: row_cached_def cell_def own_prop_def loose_eq_def has_key_def)
  from scan_skips_cached[OF a b, of test_host "Str ''Places''" test_mappings "[]" True "[]" "[row_new]"] c
  have "scan True test_host test_runtime (Str ''Places'') [row_cached, row_new] test_mappings []
       = ([row_cached, row_new], nice_events, None)"
    by (simp add: scan_row_new)
  with a b show ?thesis by simp
qed

theorem scan_break_and_skip_witness:
  "\<not> has_key (cells row_unmapped) Geocode
   \<and> scan True test_host test_runtime (Str ''Places'') [row_unmapped, row_new] test_mappings []
       = ([row_unmapped, row_new], [], None)
   \<and> has_key (cells row_unflagged) Geocode \<and> \<not> truthy (cell row_unflagged Geocode)
   \<and> scan True test_host test_runtime (Str ''Places'') [row_unflagged, row_new] test_mappings []
       = ([row_unflagged, row_new], nice_events, None)"
proof -
  have a: "\<not> has_key (cells row_unmapped) Geocode"
    by (simp add: row_unmapped_def has_key_def)
  have b: "has_key (cells row_unflagged) Geocode \<and> \<not> truthy (cell row_unflagged Geocode)"
    by (simp add: row_unflagged_def has_key_def cell_def own_prop_def)
  have e: "scan True test_host test_runtime (Str ''Places'') [] test_mappings [] = ([], [], None)"
    by (simp add: scan_def)
  from scan_break_and_skip[of row_unmapped True test_host test_runtime "Str ''Places''" "[]" "[row_new]" test_mappings "[]"] a
  have 1: "scan True test_host test_runtime (Str ''Places'') [row_unmapped, row_new] test_mappings []
       = ([row_unmapped, row_new], [], None)"
    by (simp add: e)
  from scan_break_and_skip[of row_unflagged True test_host test_runtime "Str ''Places''" "[]" "[row_new]" test_mappings "[]"] b
  have 2: "scan True test_host test_runtime (Str ''Places'') [row_unflagged, row_new] test_mappings []
       = ([row_unflagged, row_new], nice_events, None)"
    by (simp add: scan_row_new)
  from a b 1 2 show ?thesis by simp
qed

theorem scan_clears_stale_coordinates_witness:
  "truthy (cell row_stale GeocodedAddress)
   \<and> \<not> loose_eq test_runtime (cell row_stale GeocodedAddress) (cell row_stale Address)
   \<and> cell row_stale Longitude = Num (Fin 2)
   \<and> scan_record test_host test_runtime (Str ''Places'') test_mappings row_stale []
       = (Continue, clear_coordinates row_stale,
          [GeocodeRequest (Str ''Lyon''),
           UpdateRecord (Str ''Places'') 5
             [(''Lon'', Num (Fin 2)), (''Lat'', Num (Fin 48)), (''Cache'', Str ''Lyon'')],
           Delay 1000])
   \<and> cell (clear_coordinates row_stale) Longitude = Null"
proof -
  have a: "truthy (cell row_stale GeocodedAddress)"
    and b: "\<not> loose_eq test_runtime (cell row_stale GeocodedAddress) (cell row_stale Address)"
    and c: "has_key (cells row_stale) Geocode \<and> truthy (cell row_stale Geocode)"
    and d: "truthy (cell row_stale Address)"
    and l: "cell row_stale Longitude = Num (Fin 2)"
    by (simp_all add: row_stale_def cell_def own_prop_def loose_eq_def has_key_def)
  have r: "resolve test_host test_runtime (Str ''Places'') test_mappings (clear_coordinates row_stale)
             (cell row_stale Address) []
       = (Continue, clear_coordinates row_stale,
          [GeocodeRequest (Str ''Lyon''),
           UpdateRecord (Str ''Places'') 5
             [(''Lon'', Num (Fin 2)), (''Lat'', Num (Fin 48)), (''Cache'', Str ''Lyon'')],
           Delay 1000])"
    by (simp add: scan_eval row_stale_def)
  note inst = scan_clears_stale_coordinates[OF a b, of test_host "Str ''Places''" test_mappings "[]"]
  from inst have "has_key (cells row_stale) Geocode \<and> truthy (cell row_stale Geocode) \<longrightarrow>
      scan_record test_host test_runtime (Str ''Places'') test_mappings row_stale [] =
        (if truthy (cell row_stale Address)
         then resolve test_host test_runtime (Str ''Places'') test_mappings
                (clear_coordinates row_stale) (cell row_stale Address) []
         else (Continue, clear_coordinates row_stale, []))"
    by (rule conjunct1)
  with c d r have "scan_record test_host test_runtime (Str ''Places'') test_mappings row_stale []
       = (Continue, clear_coordinates row_stale,
          [GeocodeRequest (Str ''Lyon''),
           UpdateRecord (Str ''Places'') 5
             [(''Lon'', Num (Fin 2)), (''Lat'', Num (Fin 48)), (''Cache'', Str ''Lyon'')],
           Delay 1000])"
    by (simp only: if_True)
  moreover from inst have "cell (clear_coordinates row_stale) Longitude = Null"
    by blast
  ultimately have "scan_record test_host test_runtime (Str ''Places'') test_mappings row_stale []
       = (Continue, clear_coordinates row_stale,
          [GeocodeRequest (Str ''Lyon''),
           UpdateRecord (Str ''Places'') 5
             [(''Lon'', Num (Fin 2)), (''Lat'', Num (Fin 48)), (''Cache'', Str ''Lyon'')],
           Delay 1000])
     \<and> cell (clear_coordinates row_stale) Longitude = Null"
    by (rule conjI)
  with a b l show ?thesis by blast
qed

text \<open>
  C5, as stated: a failure on one row does not keep the scan from the rows after it. It
  does: when the geocoder rejects the request for the first row, the scan ends rejected
  with that one request in its log, and the second row, which a scan of its own would
  geocode, is never asked for.
\<close>

theorem scan_aborts_counterexample:
  "scan True test_host test_runtime (Str ''Places'') [row_nowhere, row_new] test_mappings []
     = ([row_nowhere, row_new], [GeocodeRequest (Str ''nowhere'')], Some ExternalError)
   \<and> scan True test_host test_runtime (Str ''Places'') [row_new] test_mappings []
     = ([row_new], nice_events, None)"
  by (simp add: scan_eval row_new_def row_nowhere_def nice_events_def)

text \<open>
  C5, amended. When the resolution of a row fails, the scan ends there: its promise is
  rejected with that exception, the row and the log are as the failed turn left them and
  the rows after it are as they were. Conversely a rejected scan is one that stopped at
  such a row. \<^verbatim>\<open>scanOnNeed\<close> drops the rejection: it keeps what the scan did and clears
  \<^verbatim>\<open>scanning\<close>, so that a later trigger scans the batch again from its first row.
\<close>

theorem scan_stops_at_failure:
  "(scan_record h rt t m r hist = (Raise e, r', hist') \<longrightarrow>
      scan True h rt t (r # rs) m hist = (r' # rs, hist', Some e))
   \<and> (scan w h rt t recs m hist = (recs', hist', Some e) \<longrightarrow>
        (\<exists>pre r post pre' r' hist1.
           recs = pre @ r # post \<and> recs' = pre' @ r' # post \<and> length pre' = length pre
           \<and> scan_record h rt t m r hist1 = (Raise e, r', hist')))
   \<and> (\<not> scanning wd \<and> truthy (selectedTableId wd) \<and> selectedRecords wd = Some recs \<longrightarrow>
        scanOnNeed h rt m hist wd =
          (wd\<lparr>selectedRecords := Some (fst (scan (writeAccess wd) h rt (selectedTableId wd) recs m hist)),
              scanning := False\<rparr>,
           fst (snd (scan (writeAccess wd) h rt (selectedTableId wd) recs m hist))))"
proof (intro conjI impI)
  assume "scan_record h rt t m r hist = (Raise e, r', hist')"
  then show "scan True h rt t (r # rs) m hist = (r' # rs, hist', Some e)"
    by (simp add: scan_def)
next
  assume s: "scan w h rt t recs m hist = (recs', hist', Some e)"
  then have "scan_loop h rt t m recs hist = (recs', hist', Some e)"
    by (auto simp: scan_def split: if_splits)
  then show "\<exists>pre r post pre' r' hist1.
           recs = pre @ r # post \<and> recs' = pre' @ r' # post \<and> length pre' = length pre
           \<and> scan_record h rt t m r hist1 = (Raise e, r', hist')"
    by (rule scan_loop_rejected)
next
  assume "\<not> scanning wd \<and> truthy (selectedTableId wd) \<and> selectedRecords wd = Some recs"
  then show "scanOnNeed h rt m hist wd =
          (wd\<lparr>selectedRecords := Some (fst (scan (writeAccess wd) h rt (selectedTableId wd) recs m hist)),
              scanning := False\<rparr>,
           fst (snd (scan (writeAccess wd) h rt (selectedTableId wd) recs m hist)))"
    by (simp add: scanOnNeed_def split: prod.splits)
qed

theorem scan_stops_at_failure_witness:
  "scan_record test_host test_runtime (Str ''Places'') test_mappings row_nowhere []
     = (Raise ExternalError, row_nowhere, [GeocodeRequest (Str ''nowhere'')])
   \<and> scan True test_host test_runtime (Str ''Places'') [row_nowhere, row_new] test_mappings []
     = ([row_nowhere, row_new], [GeocodeRequest (Str ''nowhere'')], Some ExternalError)
   \<and> scanning (fst (scanOnNeed test_host test_runtime test_mappings []
        (empty_widget\<lparr>selectedTableId := Str ''Places'',
                       selectedRecords := Some [row_nowhere, row_new]\<rparr>))) = False
   \<and> snd (scanOnNeed test_host test_runtime test_mappings []
        (empty_widget\<lparr>selectedTableId := Str ''Places'',
                       selectedRecords := Some [row_nowhere, row_new]\<rparr>))
     = [GeocodeRequest (Str ''nowhere'')]"
proof -
  let ?wd = "empty_widget\<lparr>selectedTableId := Str ''Places'',
                       selectedRecords := Some [row_nowhere, row_new]\<rparr>"
  have r: "scan_record test_host test_runtime (Str ''Places'') test_mappings row_nowhere []
     = (Raise ExternalError, row_nowhere, [GeocodeRequest (Str ''nowhere'')])"
    by (simp add: scan_eval row_nowhere_def)
  have g: "\<not> scanning ?wd \<and> truthy (selectedTableId ?wd)
     \<and> selectedRecords ?wd = Some [row_nowhere, row_new]"
    and wa: "writeAccess ?wd = True" and tb: "selectedTableId ?wd = Str ''Places''"
    by (simp_all add: empty_widget_def)
  note inst = scan_stops_at_failure[of test_host test_runtime "Str ''Places''" test_mappings
      row_nowhere "[]" ExternalError row_nowhere "[GeocodeRequest (Str ''nowhere'')]" "[row_new]"
      True "[row_nowhere, row_new]" "[row_nowhere, row_new]" ?wd]
  from inst r have s: "scan True test_host test_runtime (Str ''Places'') [row_nowhere, row_new] test_mappings []
     = ([row_nowhere, row_new], [GeocodeRequest (Str ''nowhere'')], Some ExternalError)"
    by blast
  from inst g have "scanOnNeed test_host test_runtime test_mappings [] ?wd =
          (?wd\<lparr>selectedRecords := Some (fst (scan (writeAccess ?wd) test_host test_runtime (selectedTableId ?wd) [row_nowhere, row_new] test_mappings [])),
              scanning := False\<rparr>,
           fst (snd (scan (writeAccess ?wd) test_host test_runtime (selectedTableId ?wd) [row_nowhere, row_new] test_mappings [])))"
    by blast
  then have "scanning (fst (scanOnNeed test_host test_runtime test_mappings [] ?wd)) = False
     \<and> snd (scanOnNeed test_host test_runtime test_mappings [] ?wd) = [GeocodeRequest (Str ''nowhere'')]"
    by (simp add: wa tb s)
  with r s show ?thesis by blast
qed

section \<open>Properties of marker building\<close>

lemma add_marker_selected [simp]: "selectedRowId (fst (add_marker m st)) = selectedRowId (fst st)"
  by (cases st) (simp add: add_marker_def)

lemma fold_add_marker_selected [simp]:
  "selectedRowId (fst (fold add_marker ms st)) = selectedRowId (fst st)"
  by (induction ms arbitrary: st) auto

lemma build_markers_fold:
  "build_markers rt mp raw data st = Inr st' \<Longrightarrow>
   st' = fold add_marker (new_markers rt mp raw (selectedRowId (fst st)) data) st"
proof (induction data arbitrary: st)
  case Nil
  then show ?case by simp
next
  case (Cons r data)
  show ?case
  proof (cases "marker_for rt mp raw (selectedRowId (fst st)) r")
    case (Inl e)
    with Cons.prems show ?thesis by simp
  next
    case (Inr mo)
    show ?thesis
    proof (cases mo)
      case None
      with Inr Cons show ?thesis by simp
    next
      case (Some m)
      with Inr Cons.prems have "build_markers rt mp raw data (add_marker m st) = Inr st'" by simp
      from Cons.IH[OF this] Inr Some show ?thesis by simp
    qed
  qed
qed









lemma fold_add_marker_snoc:
  "fold add_marker (ms @ [m]) st = add_marker m (fold add_marker ms st)"
  by simp


text \<open>
  The pass keeps markers distinct: each marker it makes is a new object, so after it no
  two row ids name the same marker. It starts from a \<^verbatim>\<open>popups\<close> without entries.
\<close>

lemma add_marker_distinct:
  "distinct_markers w \<Longrightarrow> distinct_markers (fst (add_marker m (w, points)))"
  unfolding distinct_markers_def add_marker_def
  by (auto simp: less_Suc_eq split: if_splits)

lemma fold_add_marker_distinct:
  "distinct_markers (fst st) \<Longrightarrow> distinct_markers (fst (fold add_marker ms st))"
proof (induction ms arbitrary: st)
  case Nil
  then show ?case by simp
next
  case (Cons m ms)
  obtain w points where st: "st = (w, points)" by (cases st)
  with Cons.prems have "distinct_markers (fst (add_marker m (w, points)))"
    by (simp add: add_marker_distinct)
  from Cons.IH[OF this] st show ?case by simp
qed

lemma build_markers_distinct:
  assumes "build_markers rt mp raw data (w, points) = Inr (w', points')"
    and "distinct_markers w"
  shows "distinct_markers w'"
  using fold_add_marker_distinct[of "(w, points)"] build_markers_fold[OF assms(1)] assms(2)
  by (metis fst_conv)

lemma no_popups_distinct: "distinct_markers (w\<lparr>popups := (\<lambda>k. None)\<rparr>)"
  by (simp add: distinct_markers_def)






section \<open>Properties of selection\<close>

lemma selectMaker_selects:
  assumes a: "popups w a = Some (MarkerRef ra)"
    and prev: "\<And>p r. selectedRowId w = Some p \<Longrightarrow> popups w p \<noteq> Some (LayerRef r)"
  shows "fst (selectMaker a w) = Inr (Some (MarkerRef ra))"
    and "selectedRowId (snd (selectMaker a w)) = Some a"
    and "popups (snd (selectMaker a w)) = popups w"
    and "m_icon (marker_heap (snd (selectMaker a w)) ra) = selectedIcon"
    and "m_pane (marker_heap (snd (selectMaker a w)) ra) = Some ''selectedMarker''"
    and "layer_heap (snd (selectMaker a w)) = layer_heap w"
  using a prev
  by (auto simp: selectMaker_def setIcon_def set_pane_def Let_def
        split: option.splits feature.splits)

lemma selectMaker_other:
  assumes sel: "selectedRowId w1 = Some a"
    and a: "popups w1 a = Some (MarkerRef ra)"
    and b: "popups w1 b = Some (MarkerRef rb)"
    and ne: "ra \<noteq> rb"
  shows "selectMaker b w1 =
     (Inr (Some (MarkerRef rb)),
      w1\<lparr>selectedRowId := Some b,
         marker_heap := (marker_heap w1)
            (ra := (marker_heap w1 ra)\<lparr>m_icon := defaultIcon, m_pane := Some ''otherMarkers''\<rparr>,
             rb := (marker_heap w1 rb)\<lparr>m_icon := selectedIcon, m_pane := Some ''selectedMarker''\<rparr>),
         calls := calls w1 @ [SetIcon (MarkerRef ra) defaultIcon, SetPane ra ''otherMarkers'',
                              SetIcon (MarkerRef rb) selectedIcon, SetPane rb ''selectedMarker'',
                              RefreshClusters, SetCursorPos b]\<rparr>)"
  using sel a b ne
  by (simp add: selectMaker_def setIcon_def set_pane_def Let_def)

lemma selectMaker_missing:
  assumes miss: "popups w rid = None"
    and sel: "selectedRowId w = Some p"
    and p: "popups w p = Some (MarkerRef r)"
  shows "selectMaker rid w =
     (Inr None,
      w\<lparr>marker_heap := (marker_heap w)
            (r := (marker_heap w r)\<lparr>m_icon := defaultIcon, m_pane := Some ''otherMarkers''\<rparr>),
        calls := calls w @ [SetIcon (MarkerRef r) defaultIcon, SetPane r ''otherMarkers'']\<rparr>)"
  using miss sel p
  by (simp add: selectMaker_def setIcon_def set_pane_def Let_def)

lemma selectMaker_again:
  assumes sel: "selectedRowId w1 = Some a"
    and a: "popups w1 a = Some (MarkerRef ra)"
    and ic: "m_icon (marker_heap w1 ra) = selectedIcon"
    and pn: "m_pane (marker_heap w1 ra) = Some ''selectedMarker''"
  shows "selectMaker a w1 =
     (Inr (Some (MarkerRef ra)),
      w1\<lparr>calls := calls w1 @ [SetIcon (MarkerRef ra) defaultIcon, SetPane ra ''otherMarkers'',
                              SetIcon (MarkerRef ra) selectedIcon, SetPane ra ''selectedMarker'',
                              RefreshClusters, SetCursorPos a]\<rparr>)"
proof -
  have m: "(marker_heap w1 ra)\<lparr>m_icon := selectedIcon, m_pane := Some ''selectedMarker''\<rparr>
            = marker_heap w1 ra"
    using ic pn by (cases "marker_heap w1 ra") simp
  have h: "(marker_heap w1)(ra := (marker_heap w1 ra)\<lparr>m_icon := selectedIcon, m_pane := Some ''selectedMarker''\<rparr>) = marker_heap w1"
    by (simp add: m)
  have s: "w1\<lparr>selectedRowId := Some a\<rparr> = w1" using sel by (cases w1) simp
  show ?thesis
    using sel a
    by (simp add: selectMaker_def setIcon_def set_pane_def Let_def h sel)
qed

lemma sub_setIcon_twice [simp]: "sub_setIcon ic (sub_setIcon ic' s) = sub_setIcon ic s"
  by (cases s) simp_all

lemma sub_calls_setIcon [simp]:
  "sub_calls r ic (map (sub_setIcon ic') subs) = sub_calls r ic subs"
proof -
  have "(case sub_setIcon ic' s of SubMarker old \<Rightarrow> [SetSubIcon r j ic] | SubPath \<Rightarrow> [])
      = (case s of SubMarker old \<Rightarrow> [SetSubIcon r j ic] | SubPath \<Rightarrow> [])" for s j
    by (cases s) simp_all
  then show ?thesis
    unfolding sub_calls_def by (auto intro!: arg_cong[where f = concat])
qed

lemma has_key_obj_set:
  "has_key (obj_set k v kv) k' = (k' = k \<or> has_key kv k')"
  by (induction kv) (auto simp: has_key_def split: if_splits)

lemma set_own_keys: "set (own_keys kv) = fst ` set kv"
  by (induction kv rule: own_keys.induct) auto

lemma own_keys_has_key: "(k \<in> set (own_keys kv)) = has_key kv k"
  by (simp add: set_own_keys has_key_def map_of_eq_None_iff)

lemma fold_assign_prop:
  "own_prop (fold (\<lambda>k acc. if k = p then acc else obj_set k (f k) acc) ks t) k'
     = (if k' \<in> set ks \<and> k' \<noteq> p then f k' else own_prop t k')"
  by (induction ks arbitrary: t) (auto simp: own_prop_obj_set)

lemma fold_assign_key:
  "has_key (fold (\<lambda>k acc. if k = p then acc else obj_set k (f k) acc) ks t) k'
     = (k' \<in> set ks \<and> k' \<noteq> p \<or> has_key t k')"
  by (induction ks arbitrary: t) (auto simp: has_key_obj_set)

text \<open>
  What \<^verbatim>\<open>Object.assign\<close> returns: the source's own properties, \<^verbatim>\<open>__proto__\<close> apart, and
  under every other name what the target had.
\<close>

lemma Object_assign_prop:
  "own_prop (Object_assign rt target source) k
     = (if has_key (entries rt source) k \<and> k \<noteq> ''__proto__''
        then own_prop (entries rt source) k else own_prop target k)"
  "has_key (Object_assign rt target source) k
     = (has_key (entries rt source) k \<and> k \<noteq> ''__proto__'' \<or> has_key target k)"
  by (simp_all add: Object_assign_def fold_assign_prop fold_assign_key own_keys_has_key)

lemma default_style_prop:
  "own_prop [(''opacity'', x), (''fillOpacity'', x)] k
     = (if k = ''opacity'' \<or> k = ''fillOpacity'' then x else Undefined)"
  by (simp add: own_prop_def)

lemma default_style_key:
  "has_key [(''opacity'', x), (''fillOpacity'', x)] k = (k = ''opacity'' \<or> k = ''fillOpacity'')"
  by (simp add: has_key_def)

lemma Object_assign_empty: "Object_assign rt target (Obj []) = target"
  by (simp add: Object_assign_def)

lemma style_of_cached:
  "geoJSONStyles w i = Some v \<Longrightarrow> truthy v \<Longrightarrow> style_of w (Some i) = v"
  "(\<And>v. geoJSONStyles w i = Some v \<Longrightarrow> \<not> truthy v) \<Longrightarrow> style_of w (Some i) = Obj []"
  by (auto simp: style_of_def split: option.splits)

lemma style_of_styles:
  "geoJSONStyles w1 = geoJSONStyles w \<Longrightarrow> style_of w1 k = style_of w k"
  by (cases k) (simp_all add: style_of_def)

lemma style_of_update [simp]:
  "style_of (w\<lparr>layer_heap := lh\<rparr>) k = style_of w k"
  "style_of (w\<lparr>calls := cs\<rparr>) k = style_of w k"
  "style_of (w\<lparr>selectedRowId := sr\<rparr>) k = style_of w k"
  by (simp_all add: style_of_def split: option.splits)

lemma selectGeoJSONFeature_selects:
  assumes a: "geoJSONLayers w a = Some ra"
  shows "fst (selectGeoJSONFeature rt a w) = Some ra"
    and "selectedRowId (snd (selectGeoJSONFeature rt a w)) = Some a"
    and "geoJSONLayers (snd (selectGeoJSONFeature rt a w)) = geoJSONLayers w"
    and "geoJSONStyles (snd (selectGeoJSONFeature rt a w)) = geoJSONStyles w"
    and "g_style (layer_heap (snd (selectGeoJSONFeature rt a w)) ra)
           = selected_style rt (style_of w (Some a))"
    and "marker_heap (snd (selectGeoJSONFeature rt a w)) = marker_heap w"
  using a
  by (auto simp: selectGeoJSONFeature_def restyle_layer_def Let_def
        split: option.splits)

lemma selectGeoJSONFeature_other:
  assumes sel: "selectedRowId w1 = Some a"
    and a: "geoJSONLayers w1 a = Some ra"
    and b: "geoJSONLayers w1 b = Some rb"
    and ne: "ra \<noteq> rb"
  shows "selectGeoJSONFeature rt b w1 =
     (Some rb,
      w1\<lparr>selectedRowId := Some b,
         layer_heap := (layer_heap w1)
            (ra := \<lparr>g_style = unselected_style rt (style_of w1 (Some a)),
                    g_sub = map (sub_setIcon defaultIcon) (g_sub (layer_heap w1 ra))\<rparr>,
             rb := \<lparr>g_style = selected_style rt (style_of w1 (Some b)),
                    g_sub = map (sub_setIcon selectedIcon) (g_sub (layer_heap w1 rb))\<rparr>),
         calls := calls w1
            @ SetStyle ra (unselected_style rt (style_of w1 (Some a)))
              # sub_calls ra defaultIcon (g_sub (layer_heap w1 ra))
            @ SetStyle rb (selected_style rt (style_of w1 (Some b)))
              # sub_calls rb selectedIcon (g_sub (layer_heap w1 rb))
            @ [SetCursorPos b]\<rparr>)"
  using sel a b ne
  by (simp add: selectGeoJSONFeature_def restyle_layer_def Let_def)

lemma selectGeoJSONFeature_missing:
  assumes miss: "geoJSONLayers w rid = None"
    and sel: "selectedRowId w = Some p"
    and p: "geoJSONLayers w p = Some r"
  shows "selectGeoJSONFeature rt rid w =
     (None,
      w\<lparr>layer_heap := (layer_heap w)
            (r := \<lparr>g_style = unselected_style rt (style_of w (Some p)),
                   g_sub = map (sub_setIcon defaultIcon) (g_sub (layer_heap w r))\<rparr>),
        calls := calls w @ SetStyle r (unselected_style rt (style_of w (Some p)))
                   # sub_calls r defaultIcon (g_sub (layer_heap w r))\<rparr>)"
  using miss sel p
  by (simp add: selectGeoJSONFeature_def restyle_layer_def Let_def)

lemma selectGeoJSONFeature_again:
  assumes sel: "selectedRowId w1 = Some a"
    and a: "geoJSONLayers w1 a = Some ra"
    and st: "g_style (layer_heap w1 ra) = selected_style rt (style_of w1 (Some a))"
    and ic: "map (sub_setIcon selectedIcon) (g_sub (layer_heap w1 ra)) = g_sub (layer_heap w1 ra)"
  shows "selectGeoJSONFeature rt a w1 =
     (Some ra,
      w1\<lparr>calls := calls w1
            @ SetStyle ra (unselected_style rt (style_of w1 (Some a)))
              # sub_calls ra defaultIcon (g_sub (layer_heap w1 ra))
            @ SetStyle ra (selected_style rt (style_of w1 (Some a)))
              # sub_calls ra selectedIcon (g_sub (layer_heap w1 ra))
            @ [SetCursorPos a]\<rparr>)"
proof -
  have l: "\<lparr>g_style = selected_style rt (style_of w1 (Some a)),
            g_sub = map (sub_setIcon selectedIcon) (g_sub (layer_heap w1 ra))\<rparr> = layer_heap w1 ra"
    using st ic by (cases "layer_heap w1 ra") simp
  have h: "(layer_heap w1)(ra := \<lparr>g_style = selected_style rt (style_of w1 (Some a)),
            g_sub = map (sub_setIcon selectedIcon) (g_sub (layer_heap w1 ra))\<rparr>) = layer_heap w1"
    by (simp add: l)
  show ?thesis
    using sel a
    by (simp add: selectGeoJSONFeature_def restyle_layer_def Let_def h comp_def)
qed

text \<open>A selection changes the icons of a layer's markers, and nothing else of its parts.\<close>

lemma selectGeoJSONFeature_sub:
  "map (sub_setIcon ic) (g_sub (layer_heap (snd (selectGeoJSONFeature rt a w)) r))
     = map (sub_setIcon ic) (g_sub (layer_heap w r))"
  by (auto simp: selectGeoJSONFeature_def restyle_layer_def Let_def comp_def
        split: option.splits)

text \<open>A selection touches no object but the previous selection's and the target's.\<close>

lemma selectMaker_frame:
  assumes "selectMaker a w = (res, w1)"
    and "popups w a \<noteq> Some (MarkerRef r)"
    and "\<And>p. selectedRowId w = Some p \<Longrightarrow> popups w p \<noteq> Some (MarkerRef r)"
  shows "marker_heap w1 r = marker_heap w r"
  using assms
  by (auto simp: selectMaker_def setIcon_def set_pane_def Let_def
        split: option.splits feature.splits)

lemma selectGeoJSONFeature_frame:
  assumes "selectGeoJSONFeature rt a w = (res, w1)"
    and "geoJSONLayers w a \<noteq> Some r"
    and "\<And>p. selectedRowId w = Some p \<Longrightarrow> geoJSONLayers w p \<noteq> Some r"
  shows "layer_heap w1 r = layer_heap w r"
  using assms
  by (auto simp: selectGeoJSONFeature_def restyle_layer_def Let_def
        split: option.splits if_splits)

text \<open>
  C6, as stated: selecting the row that is already selected makes no restyle call, on
  the click path as on the host path. It does on the path through \<^verbatim>\<open>selectMaker\<close>: after
  \<^verbatim>\<open>selectMaker(1)\<close> a second \<^verbatim>\<open>selectMaker(1)\<close> sets the marker's icon and pane to the
  unselected ones and back, refreshes the clusters and moves the host's cursor again.
\<close>

theorem reselect_restyles_counterexample:
  "selectedRowId (snd (selectMaker 1 two_markers)) = Some 1
   \<and> fst (selectMaker 1 (snd (selectMaker 1 two_markers))) = Inr (Some (MarkerRef 0))
   \<and> calls (snd (selectMaker 1 (snd (selectMaker 1 two_markers))))
       = calls (snd (selectMaker 1 two_markers))
         @ [SetIcon (MarkerRef 0) defaultIcon, SetPane 0 ''otherMarkers'',
            SetIcon (MarkerRef 0) selectedIcon, SetPane 0 ''selectedMarker'',
            RefreshClusters, SetCursorPos 1]"
  by (simp add: two_markers_def empty_widget_def selectMaker_def setIcon_def set_pane_def Let_def)

text \<open>
  C6, amended. \<^verbatim>\<open>selectOnMap\<close> returns at once when the record's id is the selected one:
  the state is unchanged and \<^verbatim>\<open>updateMap\<close> is not called. \<^verbatim>\<open>selectMaker\<close> and
  \<^verbatim>\<open>selectGeoJSONFeature\<close> have no such test: called again right after they selected a
  row that has a feature, they restyle that feature to unselected and back to selected
  and move the host's cursor again, and leave the selection and every feature's icon,
  pane and style as the first call left them (only the calls made are added).
\<close>

theorem reselect_same_row:
  "(selectedRowId w = Some (row_id rec) \<longrightarrow> selectOnMap rec w = (w, None))
   \<and> (\<forall>ra w1. popups w a = Some (MarkerRef ra)
          \<and> (\<forall>p r. selectedRowId w = Some p \<longrightarrow> popups w p \<noteq> Some (LayerRef r))
          \<and> w1 = snd (selectMaker a w) \<longrightarrow>
        selectedRowId w1 = Some a
        \<and> selectMaker a w1 =
            (Inr (Some (MarkerRef ra)),
             w1\<lparr>calls := calls w1
                @ [SetIcon (MarkerRef ra) defaultIcon, SetPane ra ''otherMarkers'',
                   SetIcon (MarkerRef ra) selectedIcon, SetPane ra ''selectedMarker'',
                   RefreshClusters, SetCursorPos a]\<rparr>))
   \<and> (\<forall>ra w1. geoJSONLayers w a = Some ra \<and> w1 = snd (selectGeoJSONFeature rt a w) \<longrightarrow>
        selectedRowId w1 = Some a
        \<and> selectGeoJSONFeature rt a w1 =
            (Some ra,
             w1\<lparr>calls := calls w1
                @ SetStyle ra (unselected_style rt (style_of w1 (Some a)))
                  # sub_calls ra defaultIcon (g_sub (layer_heap w1 ra))
                @ SetStyle ra (selected_style rt (style_of w1 (Some a)))
                  # sub_calls ra selectedIcon (g_sub (layer_heap w1 ra))
                @ [SetCursorPos a]\<rparr>))"
proof (intro conjI allI impI)
  assume "selectedRowId w = Some (row_id rec)"
  then show "selectOnMap rec w = (w, None)" by (simp add: selectOnMap_def)
next
  fix ra w1
  assume h: "popups w a = Some (MarkerRef ra)
          \<and> (\<forall>p r. selectedRowId w = Some p \<longrightarrow> popups w p \<noteq> Some (LayerRef r))
          \<and> w1 = snd (selectMaker a w)"
  then have a: "popups w a = Some (MarkerRef ra)"
    and prev: "\<And>p r. selectedRowId w = Some p \<Longrightarrow> popups w p \<noteq> Some (LayerRef r)"
    and w1: "w1 = snd (selectMaker a w)" by auto
  from selectMaker_selects[OF a prev] w1
  have s: "selectedRowId w1 = Some a" and p: "popups w1 a = Some (MarkerRef ra)"
    and i: "m_icon (marker_heap w1 ra) = selectedIcon"
    and n: "m_pane (marker_heap w1 ra) = Some ''selectedMarker''"
    using a by simp_all
  show "selectedRowId w1 = Some a" by (rule s)
  show "selectMaker a w1 =
            (Inr (Some (MarkerRef ra)),
             w1\<lparr>calls := calls w1
                @ [SetIcon (MarkerRef ra) defaultIcon, SetPane ra ''otherMarkers'',
                   SetIcon (MarkerRef ra) selectedIcon, SetPane ra ''selectedMarker'',
                   RefreshClusters, SetCursorPos a]\<rparr>)"
    by (rule selectMaker_again[OF s p i n])
next
  fix ra w1
  assume h: "geoJSONLayers w a = Some ra \<and> w1 = snd (selectGeoJSONFeature rt a w)"
  then have a: "geoJSONLayers w a = Some ra" and w1: "w1 = snd (selectGeoJSONFeature rt a w)"
    by auto
  from selectGeoJSONFeature_selects[OF a, of rt] w1
  have s: "selectedRowId w1 = Some a" and p: "geoJSONLayers w1 a = Some ra"
    and gs: "geoJSONStyles w1 = geoJSONStyles w"
    and st0: "g_style (layer_heap w1 ra) = selected_style rt (style_of w (Some a))"
    using a by simp_all
  have "style_of w1 (Some a) = style_of w (Some a)" using gs by (simp add: style_of_def)
  with st0 have st: "g_style (layer_heap w1 ra) = selected_style rt (style_of w1 (Some a))" by simp
  have ic: "map (sub_setIcon selectedIcon) (g_sub (layer_heap w1 ra)) = g_sub (layer_heap w1 ra)"
    using a w1 by (simp add: selectGeoJSONFeature_def restyle_layer_def Let_def split: option.splits)
  show "selectedRowId w1 = Some a" by (rule s)
  show "selectGeoJSONFeature rt a w1 =
            (Some ra,
             w1\<lparr>calls := calls w1
                @ SetStyle ra (unselected_style rt (style_of w1 (Some a)))
                  # sub_calls ra defaultIcon (g_sub (layer_heap w1 ra))
                @ SetStyle ra (selected_style rt (style_of w1 (Some a)))
                  # sub_calls ra selectedIcon (g_sub (layer_heap w1 ra))
                @ [SetCursorPos a]\<rparr>)"
    by (rule selectGeoJSONFeature_again[OF s p st ic])
qed

text \<open>
  C7. Rows \<^verbatim>\<open>a\<close> and \<^verbatim>\<open>b\<close> have features, which are different objects. After
  \<^verbatim>\<open>select(a)\<close>, \<^verbatim>\<open>select(b)\<close> returns the feature of \<^verbatim>\<open>b\<close>, makes \<^verbatim>\<open>b\<close> the selection,
  gives the feature of \<^verbatim>\<open>a\<close> the unselected appearance and that of \<^verbatim>\<open>b\<close> the selected
  one, calls nothing on any other feature and leaves every other object as it was; in
  marker mode (icon and pane) and in GeoJSON mode (style, and icon of the point layers).
  Over the two calls together, the only other object touched is the feature of the row
  that was selected before them, if there was one.

  The appearances are these. A selected marker has the selected icon and the pane
  \<^verbatim>\<open>selectedMarker\<close>, an unselected one the default icon and the pane \<^verbatim>\<open>otherMarkers\<close>. The
  style set on a selected layer has the own properties of the custom style cached for
  its row, and \<^verbatim>\<open>opacity\<close> and \<^verbatim>\<open>fillOpacity\<close> 0.6 where the custom style has none of that
  name, and no other property; without a cached style it is exactly these two. For an
  unselected layer the number is 0.3. The markers among the parts of a selected layer
  have the selected icon, those of an unselected layer the default icon.
\<close>

theorem select_other_restyles_two:
  "(\<forall>ra rb w1. popups w a = Some (MarkerRef ra) \<and> popups w b = Some (MarkerRef rb) \<and> ra \<noteq> rb
        \<and> (\<forall>p r. selectedRowId w = Some p \<longrightarrow> popups w p \<noteq> Some (LayerRef r))
        \<and> w1 = snd (selectMaker a w) \<longrightarrow>
      fst (selectMaker a w) = Inr (Some (MarkerRef ra)) \<and> selectedRowId w1 = Some a
      \<and> selectMaker b w1 =
          (Inr (Some (MarkerRef rb)),
           w1\<lparr>selectedRowId := Some b,
              marker_heap := (marker_heap w1)
                (ra := (marker_heap w1 ra)\<lparr>m_icon := defaultIcon, m_pane := Some ''otherMarkers''\<rparr>,
                 rb := (marker_heap w1 rb)\<lparr>m_icon := selectedIcon,
                                           m_pane := Some ''selectedMarker''\<rparr>),
              calls := calls w1
                @ [SetIcon (MarkerRef ra) defaultIcon, SetPane ra ''otherMarkers'',
                   SetIcon (MarkerRef rb) selectedIcon, SetPane rb ''selectedMarker'',
                   RefreshClusters, SetCursorPos b]\<rparr>)
      \<and> (\<forall>r. r \<noteq> ra \<and> r \<noteq> rb \<longrightarrow>
            marker_heap (snd (selectMaker b w1)) r = marker_heap w1 r)
      \<and> (\<forall>r. r \<noteq> ra \<and> r \<noteq> rb
              \<and> (\<forall>p. selectedRowId w = Some p \<longrightarrow> popups w p \<noteq> Some (MarkerRef r)) \<longrightarrow>
            marker_heap (snd (selectMaker b w1)) r = marker_heap w r)
      \<and> layer_heap (snd (selectMaker b w1)) = layer_heap w1)
   \<and> (\<forall>ra rb w1. geoJSONLayers w a = Some ra \<and> geoJSONLayers w b = Some rb \<and> ra \<noteq> rb
        \<and> w1 = snd (selectGeoJSONFeature rt a w) \<longrightarrow>
      fst (selectGeoJSONFeature rt a w) = Some ra \<and> selectedRowId w1 = Some a
      \<and> selectGeoJSONFeature rt b w1 =
          (Some rb,
           w1\<lparr>selectedRowId := Some b,
              layer_heap := (layer_heap w1)
                (ra := \<lparr>g_style = unselected_style rt (style_of w1 (Some a)),
                        g_sub = map (sub_setIcon defaultIcon) (g_sub (layer_heap w1 ra))\<rparr>,
                 rb := \<lparr>g_style = selected_style rt (style_of w1 (Some b)),
                        g_sub = map (sub_setIcon selectedIcon) (g_sub (layer_heap w1 rb))\<rparr>),
              calls := calls w1
                @ SetStyle ra (unselected_style rt (style_of w1 (Some a)))
                  # sub_calls ra defaultIcon (g_sub (layer_heap w1 ra))
                @ SetStyle rb (selected_style rt (style_of w1 (Some b)))
                  # sub_calls rb selectedIcon (g_sub (layer_heap w1 rb))
                @ [SetCursorPos b]\<rparr>)
      \<and> (\<forall>r. r \<noteq> ra \<and> r \<noteq> rb \<longrightarrow>
            layer_heap (snd (selectGeoJSONFeature rt b w1)) r = layer_heap w1 r)
      \<and> (\<forall>r. r \<noteq> ra \<and> r \<noteq> rb
              \<and> (\<forall>p. selectedRowId w = Some p \<longrightarrow> geoJSONLayers w p \<noteq> Some r) \<longrightarrow>
            layer_heap (snd (selectGeoJSONFeature rt b w1)) r = layer_heap w r)
      \<and> marker_heap (snd (selectGeoJSONFeature rt b w1)) = marker_heap w1
      \<and> (\<forall>v k. geoJSONStyles w b = Some v \<and> truthy v \<longrightarrow>
            own_prop (g_style (layer_heap (snd (selectGeoJSONFeature rt b w1)) rb)) k =
              (if has_key (entries rt v) k \<and> k \<noteq> ''__proto__'' then own_prop (entries rt v) k
               else if k = ''opacity'' \<or> k = ''fillOpacity'' then Num (Fin (6 / 10))
               else Undefined)
            \<and> has_key (g_style (layer_heap (snd (selectGeoJSONFeature rt b w1)) rb)) k =
              (k = ''opacity'' \<or> k = ''fillOpacity''
               \<or> has_key (entries rt v) k \<and> k \<noteq> ''__proto__''))
      \<and> ((\<forall>v. geoJSONStyles w b = Some v \<longrightarrow> \<not> truthy v) \<longrightarrow>
            g_style (layer_heap (snd (selectGeoJSONFeature rt b w1)) rb)
              = [(''opacity'', Num (Fin (6 / 10))), (''fillOpacity'', Num (Fin (6 / 10)))])
      \<and> (\<forall>v k. geoJSONStyles w a = Some v \<and> truthy v \<longrightarrow>
            own_prop (g_style (layer_heap (snd (selectGeoJSONFeature rt b w1)) ra)) k =
              (if has_key (entries rt v) k \<and> k \<noteq> ''__proto__'' then own_prop (entries rt v) k
               else if k = ''opacity'' \<or> k = ''fillOpacity'' then Num (Fin (3 / 10))
               else Undefined)
            \<and> has_key (g_style (layer_heap (snd (selectGeoJSONFeature rt b w1)) ra)) k =
              (k = ''opacity'' \<or> k = ''fillOpacity''
               \<or> has_key (entries rt v) k \<and> k \<noteq> ''__proto__''))
      \<and> ((\<forall>v. geoJSONStyles w a = Some v \<longrightarrow> \<not> truthy v) \<longrightarrow>
            g_style (layer_heap (snd (selectGeoJSONFeature rt b w1)) ra)
              = [(''opacity'', Num (Fin (3 / 10))), (''fillOpacity'', Num (Fin (3 / 10)))])
      \<and> g_sub (layer_heap (snd (selectGeoJSONFeature rt b w1)) rb)
          = map (sub_setIcon selectedIcon) (g_sub (layer_heap w rb))
      \<and> g_sub (layer_heap (snd (selectGeoJSONFeature rt b w1)) ra)
          = map (sub_setIcon defaultIcon) (g_sub (layer_heap w ra)))"
proof (intro conjI allI impI)
  fix ra rb w1
  assume h: "popups w a = Some (MarkerRef ra) \<and> popups w b = Some (MarkerRef rb) \<and> ra \<noteq> rb
        \<and> (\<forall>p r. selectedRowId w = Some p \<longrightarrow> popups w p \<noteq> Some (LayerRef r))
        \<and> w1 = snd (selectMaker a w)"
  then have a: "popups w a = Some (MarkerRef ra)" and b: "popups w b = Some (MarkerRef rb)"
    and ne: "ra \<noteq> rb"
    and prev: "\<And>p r. selectedRowId w = Some p \<Longrightarrow> popups w p \<noteq> Some (LayerRef r)"
    and w1: "w1 = snd (selectMaker a w)" by auto
  from selectMaker_selects[OF a prev] w1
  have s: "selectedRowId w1 = Some a" and p: "popups w1 = popups w" by simp_all
  show "fst (selectMaker a w) = Inr (Some (MarkerRef ra))"
    by (rule selectMaker_selects[OF a prev])
  show "selectedRowId w1 = Some a" by (rule s)
  have eq: "selectMaker b w1 =
          (Inr (Some (MarkerRef rb)),
           w1\<lparr>selectedRowId := Some b,
              marker_heap := (marker_heap w1)
                (ra := (marker_heap w1 ra)\<lparr>m_icon := defaultIcon, m_pane := Some ''otherMarkers''\<rparr>,
                 rb := (marker_heap w1 rb)\<lparr>m_icon := selectedIcon,
                                           m_pane := Some ''selectedMarker''\<rparr>),
              calls := calls w1
                @ [SetIcon (MarkerRef ra) defaultIcon, SetPane ra ''otherMarkers'',
                   SetIcon (MarkerRef rb) selectedIcon, SetPane rb ''selectedMarker'',
                   RefreshClusters, SetCursorPos b]\<rparr>)"
    by (rule selectMaker_other[OF s _ _ ne]) (simp_all add: p a b)
  then show "selectMaker b w1 =
          (Inr (Some (MarkerRef rb)),
           w1\<lparr>selectedRowId := Some b,
              marker_heap := (marker_heap w1)
                (ra := (marker_heap w1 ra)\<lparr>m_icon := defaultIcon, m_pane := Some ''otherMarkers''\<rparr>,
                 rb := (marker_heap w1 rb)\<lparr>m_icon := selectedIcon,
                                           m_pane := Some ''selectedMarker''\<rparr>),
              calls := calls w1
                @ [SetIcon (MarkerRef ra) defaultIcon, SetPane ra ''otherMarkers'',
                   SetIcon (MarkerRef rb) selectedIcon, SetPane rb ''selectedMarker'',
                   RefreshClusters, SetCursorPos b]\<rparr>)" .
  show "layer_heap (snd (selectMaker b w1)) = layer_heap w1" by (simp add: eq)
  {
    fix r assume "r \<noteq> ra \<and> r \<noteq> rb"
    then show "marker_heap (snd (selectMaker b w1)) r = marker_heap w1 r" by (simp add: eq)
  }
  fix r
  assume r: "r \<noteq> ra \<and> r \<noteq> rb
              \<and> (\<forall>p. selectedRowId w = Some p \<longrightarrow> popups w p \<noteq> Some (MarkerRef r))"
  have "marker_heap w1 r = marker_heap w r"
    by (rule selectMaker_frame[of a w "fst (selectMaker a w)"]) (use r a w1 in auto)
  with r show "marker_heap (snd (selectMaker b w1)) r = marker_heap w r" by (simp add: eq)
next
  fix ra rb w1
  assume h: "geoJSONLayers w a = Some ra \<and> geoJSONLayers w b = Some rb \<and> ra \<noteq> rb
        \<and> w1 = snd (selectGeoJSONFeature rt a w)"
  then have a: "geoJSONLayers w a = Some ra" and b: "geoJSONLayers w b = Some rb"
    and ne: "ra \<noteq> rb" and w1: "w1 = snd (selectGeoJSONFeature rt a w)" by auto
  from selectGeoJSONFeature_selects[OF a, of rt] w1
  have s: "selectedRowId w1 = Some a" and p: "geoJSONLayers w1 = geoJSONLayers w" by simp_all
  show "fst (selectGeoJSONFeature rt a w) = Some ra"
    by (rule selectGeoJSONFeature_selects[OF a])
  show "selectedRowId w1 = Some a" by (rule s)
  have eq: "selectGeoJSONFeature rt b w1 =
          (Some rb,
           w1\<lparr>selectedRowId := Some b,
              layer_heap := (layer_heap w1)
                (ra := \<lparr>g_style = unselected_style rt (style_of w1 (Some a)),
                        g_sub = map (sub_setIcon defaultIcon) (g_sub (layer_heap w1 ra))\<rparr>,
                 rb := \<lparr>g_style = selected_style rt (style_of w1 (Some b)),
                        g_sub = map (sub_setIcon selectedIcon) (g_sub (layer_heap w1 rb))\<rparr>),
              calls := calls w1
                @ SetStyle ra (unselected_style rt (style_of w1 (Some a)))
                  # sub_calls ra defaultIcon (g_sub (layer_heap w1 ra))
                @ SetStyle rb (selected_style rt (style_of w1 (Some b)))
                  # sub_calls rb selectedIcon (g_sub (layer_heap w1 rb))
                @ [SetCursorPos b]\<rparr>)"
    by (rule selectGeoJSONFeature_other[OF s _ _ ne]) (simp_all add: p a b)
  then show "selectGeoJSONFeature rt b w1 =
          (Some rb,
           w1\<lparr>selectedRowId := Some b,
              layer_heap := (layer_heap w1)
                (ra := \<lparr>g_style = unselected_style rt (style_of w1 (Some a)),
                        g_sub = map (sub_setIcon defaultIcon) (g_sub (layer_heap w1 ra))\<rparr>,
                 rb := \<lparr>g_style = selected_style rt (style_of w1 (Some b)),
                        g_sub = map (sub_setIcon selectedIcon) (g_sub (layer_heap w1 rb))\<rparr>),
              calls := calls w1
                @ SetStyle ra (unselected_style rt (style_of w1 (Some a)))
                  # sub_calls ra defaultIcon (g_sub (layer_heap w1 ra))
                @ SetStyle rb (selected_style rt (style_of w1 (Some b)))
                  # sub_calls rb selectedIcon (g_sub (layer_heap w1 rb))
                @ [SetCursorPos b]\<rparr>)" .
  show "marker_heap (snd (selectGeoJSONFeature rt b w1)) = marker_heap w1" by (simp add: eq)
  have gs: "geoJSONStyles w1 = geoJSONStyles w"
    using selectGeoJSONFeature_selects(4)[OF a, of rt] w1 by simp
  have so: "style_of w1 k = style_of w k" for k
    by (rule style_of_styles[OF gs])
  have sub: "map (sub_setIcon ic) (g_sub (layer_heap w1 r))
      = map (sub_setIcon ic) (g_sub (layer_heap w r))" for ic r
    unfolding w1 by (rule selectGeoJSONFeature_sub)
  have gb: "g_style (layer_heap (snd (selectGeoJSONFeature rt b w1)) rb) = selected_style rt (style_of w (Some b))"
    by (simp add: eq so)
  have ga: "g_style (layer_heap (snd (selectGeoJSONFeature rt b w1)) ra) = unselected_style rt (style_of w (Some a))"
    using ne by (simp add: eq so)
  {
    fix v k assume "geoJSONStyles w b = Some v \<and> truthy v"
    then have v: "style_of w (Some b) = v" by (simp add: style_of_cached)
    show "own_prop (g_style (layer_heap (snd (selectGeoJSONFeature rt b w1)) rb)) k =
              (if has_key (entries rt v) k \<and> k \<noteq> ''__proto__'' then own_prop (entries rt v) k
               else if k = ''opacity'' \<or> k = ''fillOpacity'' then Num (Fin (6 / 10))
               else Undefined)"
      by (simp add: gb v selected_style_def Object_assign_prop(1) default_style_prop)
    show "has_key (g_style (layer_heap (snd (selectGeoJSONFeature rt b w1)) rb)) k =
              (k = ''opacity'' \<or> k = ''fillOpacity''
               \<or> has_key (entries rt v) k \<and> k \<noteq> ''__proto__'')"
      unfolding gb v selected_style_def Object_assign_prop(2) default_style_key by blast
  }
  {
    assume "\<forall>v. geoJSONStyles w b = Some v \<longrightarrow> \<not> truthy v"
    then have "style_of w (Some b) = Obj []" by (simp add: style_of_cached)
    then show "g_style (layer_heap (snd (selectGeoJSONFeature rt b w1)) rb)
              = [(''opacity'', Num (Fin (6 / 10))), (''fillOpacity'', Num (Fin (6 / 10)))]"
      by (simp add: gb selected_style_def Object_assign_empty)
  }
  {
    fix v k assume "geoJSONStyles w a = Some v \<and> truthy v"
    then have v: "style_of w (Some a) = v" by (simp add: style_of_cached)
    show "own_prop (g_style (layer_heap (snd (selectGeoJSONFeature rt b w1)) ra)) k =
              (if has_key (entries rt v) k \<and> k \<noteq> ''__proto__'' then own_prop (entries rt v) k
               else if k = ''opacity'' \<or> k = ''fillOpacity'' then Num (Fin (3 / 10))
               else Undefined)"
      by (simp add: ga v unselected_style_def Object_assign_prop(1) default_style_prop)
    show "has_key (g_style (layer_heap (snd (selectGeoJSONFeature rt b w1)) ra)) k =
              (k = ''opacity'' \<or> k = ''fillOpacity''
               \<or> has_key (entries rt v) k \<and> k \<noteq> ''__proto__'')"
      unfolding ga v unselected_style_def Object_assign_prop(2) default_style_key by blast
  }
  {
    assume "\<forall>v. geoJSONStyles w a = Some v \<longrightarrow> \<not> truthy v"
    then have "style_of w (Some a) = Obj []" by (simp add: style_of_cached)
    then show "g_style (layer_heap (snd (selectGeoJSONFeature rt b w1)) ra)
              = [(''opacity'', Num (Fin (3 / 10))), (''fillOpacity'', Num (Fin (3 / 10)))]"
      by (simp add: ga unselected_style_def Object_assign_empty)
  }
  show "g_sub (layer_heap (snd (selectGeoJSONFeature rt b w1)) rb)
          = map (sub_setIcon selectedIcon) (g_sub (layer_heap w rb))"
    by (simp add: eq sub)
  show "g_sub (layer_heap (snd (selectGeoJSONFeature rt b w1)) ra)
          = map (sub_setIcon defaultIcon) (g_sub (layer_heap w ra))"
    using ne by (simp add: eq sub)
  {
    fix r assume "r \<noteq> ra \<and> r \<noteq> rb"
    then show "layer_heap (snd (selectGeoJSONFeature rt b w1)) r = layer_heap w1 r"
      by (simp add: eq)
  }
  fix r
  assume r: "r \<noteq> ra \<and> r \<noteq> rb
              \<and> (\<forall>p. selectedRowId w = Some p \<longrightarrow> geoJSONLayers w p \<noteq> Some r)"
  have "layer_heap w1 r = layer_heap w r"
    by (rule selectGeoJSONFeature_frame[of rt a w "fst (selectGeoJSONFeature rt a w)"])
       (use r a w1 in auto)
  with r show "layer_heap (snd (selectGeoJSONFeature rt b w1)) r = layer_heap w r"
    by (simp add: eq)
qed

text \<open>
  C10. A selection of a row id that has no feature returns \<^verbatim>\<open>null\<close> and leaves the
  selected row id as it was; if the selected row has a feature, that feature has by then
  been given the unselected appearance, so the selection names a feature that looks
  unselected. In
  marker mode (where the previous selection must not be a GeoJSON layer, on which
  \<^verbatim>\<open>setIcon\<close> would raise) and in GeoJSON mode.
\<close>

theorem select_missing_unselects_previous:
  "(popups w rid = None
      \<and> (\<forall>p r. selectedRowId w = Some p \<longrightarrow> popups w p \<noteq> Some (LayerRef r)) \<longrightarrow>
      fst (selectMaker rid w) = Inr None
      \<and> selectedRowId (snd (selectMaker rid w)) = selectedRowId w)
   \<and> (\<forall>p r. popups w rid = None \<and> selectedRowId w = Some p \<and> popups w p = Some (MarkerRef r) \<longrightarrow>
        selectMaker rid w =
          (Inr None,
           w\<lparr>marker_heap := (marker_heap w)
                (r := (marker_heap w r)\<lparr>m_icon := defaultIcon, m_pane := Some ''otherMarkers''\<rparr>),
             calls := calls w @ [SetIcon (MarkerRef r) defaultIcon, SetPane r ''otherMarkers'']\<rparr>))
   \<and> (geoJSONLayers w rid = None \<longrightarrow>
        fst (selectGeoJSONFeature rt rid w) = None
        \<and> selectedRowId (snd (selectGeoJSONFeature rt rid w)) = selectedRowId w)
   \<and> (\<forall>p r. geoJSONLayers w rid = None \<and> selectedRowId w = Some p \<and> geoJSONLayers w p = Some r \<longrightarrow>
        selectGeoJSONFeature rt rid w =
          (None,
           w\<lparr>layer_heap := (layer_heap w)
                (r := \<lparr>g_style = unselected_style rt (style_of w (Some p)),
                       g_sub = map (sub_setIcon defaultIcon) (g_sub (layer_heap w r))\<rparr>),
             calls := calls w @ SetStyle r (unselected_style rt (style_of w (Some p)))
                        # sub_calls r defaultIcon (g_sub (layer_heap w r))\<rparr>))"
proof (intro conjI allI impI)
  assume h: "popups w rid = None
      \<and> (\<forall>p r. selectedRowId w = Some p \<longrightarrow> popups w p \<noteq> Some (LayerRef r))"
  then show "fst (selectMaker rid w) = Inr None"
    and "selectedRowId (snd (selectMaker rid w)) = selectedRowId w"
    by (auto simp: selectMaker_def setIcon_def set_pane_def Let_def
          split: option.splits feature.splits)
next
  fix p r
  assume "popups w rid = None \<and> selectedRowId w = Some p \<and> popups w p = Some (MarkerRef r)"
  then show "selectMaker rid w =
          (Inr None,
           w\<lparr>marker_heap := (marker_heap w)
                (r := (marker_heap w r)\<lparr>m_icon := defaultIcon, m_pane := Some ''otherMarkers''\<rparr>),
             calls := calls w @ [SetIcon (MarkerRef r) defaultIcon, SetPane r ''otherMarkers'']\<rparr>)"
    using selectMaker_missing[of w rid p r] by simp
next
  assume h: "geoJSONLayers w rid = None"
  then show "fst (selectGeoJSONFeature rt rid w) = None"
    and "selectedRowId (snd (selectGeoJSONFeature rt rid w)) = selectedRowId w"
    by (auto simp: selectGeoJSONFeature_def restyle_layer_def Let_def split: option.splits)
next
  fix p r
  assume "geoJSONLayers w rid = None \<and> selectedRowId w = Some p \<and> geoJSONLayers w p = Some r"
  then show "selectGeoJSONFeature rt rid w =
          (None,
           w\<lparr>layer_heap := (layer_heap w)
                (r := \<lparr>g_style = unselected_style rt (style_of w (Some p)),
                       g_sub = map (sub_setIcon defaultIcon) (g_sub (layer_heap w r))\<rparr>),
             calls := calls w @ SetStyle r (unselected_style rt (style_of w (Some p)))
                        # sub_calls r defaultIcon (g_sub (layer_heap w r))\<rparr>)"
    using selectGeoJSONFeature_missing[of w rid p r rt] by simp
qed

lemmas select_eval = two_markers_def two_layers_def empty_widget_def selectMaker_def setIcon_def
  set_pane_def selectGeoJSONFeature_def restyle_layer_def style_of_def selected_style_def
  unselected_style_def Object_assign_def Let_def

theorem reselect_same_row_witness:
  "selectedRowId (two_markers\<lparr>selectedRowId := Some 3\<rparr>) = Some (row_id row_placed)
   \<and> selectOnMap row_placed (two_markers\<lparr>selectedRowId := Some 3\<rparr>)
       = (two_markers\<lparr>selectedRowId := Some 3\<rparr>, None)
   \<and> popups two_markers 1 = Some (MarkerRef 0)
   \<and> selectedRowId (snd (selectMaker 1 two_markers)) = Some 1
   \<and> fst (selectMaker 1 (snd (selectMaker 1 two_markers))) = Inr (Some (MarkerRef 0))
   \<and> geoJSONLayers two_layers 2 = Some 1
   \<and> selectedRowId (snd (selectGeoJSONFeature test_runtime 2 two_layers)) = Some 2
   \<and> fst (selectGeoJSONFeature test_runtime 2 (snd (selectGeoJSONFeature test_runtime 2 two_layers)))
       = Some 1"
proof -
  have a: "selectedRowId (two_markers\<lparr>selectedRowId := Some 3\<rparr>) = Some (row_id row_placed)"
    by (simp add: row_placed_def)
  have b: "popups two_markers 1 = Some (MarkerRef 0)"
    and c: "\<forall>p r. selectedRowId two_markers = Some p \<longrightarrow> popups two_markers p \<noteq> Some (LayerRef r)"
    by (simp_all add: two_markers_def empty_widget_def)
  have d: "geoJSONLayers two_layers 2 = Some 1"
    by (simp add: two_layers_def empty_widget_def)
  from reselect_same_row[of "two_markers\<lparr>selectedRowId := Some 3\<rparr>" row_placed] a
  have 1: "selectOnMap row_placed (two_markers\<lparr>selectedRowId := Some 3\<rparr>)
       = (two_markers\<lparr>selectedRowId := Some 3\<rparr>, None)"
    by blast
  from reselect_same_row[of two_markers row_placed 1] b c
  have 2: "selectedRowId (snd (selectMaker 1 two_markers)) = Some 1
     \<and> fst (selectMaker 1 (snd (selectMaker 1 two_markers))) = Inr (Some (MarkerRef 0))"
    by (metis fst_conv)
  from reselect_same_row[of two_layers row_placed 2 test_runtime] d
  have 3: "selectedRowId (snd (selectGeoJSONFeature test_runtime 2 two_layers)) = Some 2
     \<and> fst (selectGeoJSONFeature test_runtime 2
              (snd (selectGeoJSONFeature test_runtime 2 two_layers))) = Some 1"
    by (metis fst_conv)
  from a b d 1 2 3 show ?thesis by blast
qed

theorem select_other_restyles_two_witness:
  "popups two_markers 1 = Some (MarkerRef 0) \<and> popups two_markers 2 = Some (MarkerRef 1)
   \<and> selectedRowId (snd (selectMaker 2 (snd (selectMaker 1 two_markers)))) = Some 2
   \<and> m_icon (marker_heap (snd (selectMaker 2 (snd (selectMaker 1 two_markers)))) 0) = defaultIcon
   \<and> m_icon (marker_heap (snd (selectMaker 2 (snd (selectMaker 1 two_markers)))) 1) = selectedIcon
   \<and> geoJSONLayers two_layers 1 = Some 0 \<and> geoJSONLayers two_layers 2 = Some 1
   \<and> g_sub (layer_heap (snd (selectGeoJSONFeature test_runtime 2
              (snd (selectGeoJSONFeature test_runtime 1 two_layers)))) 0)
       = [SubMarker defaultIcon, SubPath]
   \<and> g_sub (layer_heap (snd (selectGeoJSONFeature test_runtime 2
              (snd (selectGeoJSONFeature test_runtime 1 two_layers)))) 1)
       = [SubMarker selectedIcon, SubPath]
   \<and> geoJSONStyles two_layers 1 = None
   \<and> g_style (layer_heap (snd (selectGeoJSONFeature test_runtime 2
              (snd (selectGeoJSONFeature test_runtime 1 two_layers)))) 0)
       = [(''opacity'', Num (Fin (3 / 10))), (''fillOpacity'', Num (Fin (3 / 10)))]
   \<and> geoJSONStyles two_layers 2 = Some (Obj [(''color'', Str ''red'')])
   \<and> g_style (layer_heap (snd (selectGeoJSONFeature test_runtime 2
              (snd (selectGeoJSONFeature test_runtime 1 two_layers)))) 1)
       = [(''opacity'', Num (Fin (6 / 10))), (''fillOpacity'', Num (Fin (6 / 10))),
          (''color'', Str ''red'')]
   \<and> own_prop (g_style (layer_heap (snd (selectGeoJSONFeature test_runtime 2
              (snd (selectGeoJSONFeature test_runtime 1 two_layers)))) 1)) ''opacity''
       = Num (Fin (6 / 10))
   \<and> own_prop (g_style (layer_heap (snd (selectGeoJSONFeature test_runtime 2
              (snd (selectGeoJSONFeature test_runtime 1 two_layers)))) 1)) ''color''
       = Str ''red''"
proof -
  let ?w1 = "snd (selectMaker 1 two_markers)"
  let ?v1 = "snd (selectGeoJSONFeature test_runtime 1 two_layers)"
  let ?v2 = "snd (selectGeoJSONFeature test_runtime 2 ?v1)"
  have a: "popups two_markers 1 = Some (MarkerRef 0)" "popups two_markers 2 = Some (MarkerRef 1)"
    and c: "\<forall>p r. selectedRowId two_markers = Some p \<longrightarrow> popups two_markers p \<noteq> Some (LayerRef r)"
    by (simp_all add: two_markers_def empty_widget_def)
  have d: "geoJSONLayers two_layers 1 = Some 0" "geoJSONLayers two_layers 2 = Some 1"
    by (simp_all add: two_layers_def empty_widget_def)
  have st: "geoJSONStyles two_layers 1 = None"
    "geoJSONStyles two_layers 2 = Some (Obj [(''color'', Str ''red'')])"
    "truthy (Obj [(''color'', Str ''red'')])"
    by (simp_all add: two_layers_def empty_widget_def)
  have pm: "popups two_markers 1 = Some (MarkerRef 0) \<and> popups two_markers 2 = Some (MarkerRef 1)
      \<and> (0::nat) \<noteq> 1
      \<and> (\<forall>p r. selectedRowId two_markers = Some p \<longrightarrow> popups two_markers p \<noteq> Some (LayerRef r))
      \<and> ?w1 = snd (selectMaker 1 two_markers)"
    using a c by simp
  have pg: "geoJSONLayers two_layers 1 = Some 0 \<and> geoJSONLayers two_layers 2 = Some 1
      \<and> (0::nat) \<noteq> 1 \<and> ?v1 = snd (selectGeoJSONFeature test_runtime 1 two_layers)"
    using d by simp
  note im = select_other_restyles_two[of two_markers 1 2 test_runtime,
      THEN conjunct1, rule_format, OF pm]
  note ig = select_other_restyles_two[of two_layers 1 2 test_runtime,
      THEN conjunct2, rule_format, OF pg]
  note m = im[THEN conjunct2, THEN conjunct2, THEN conjunct1]
  note g = ig[THEN conjunct2, THEN conjunct2, THEN conjunct1]
  note tail = ig[THEN conjunct2, THEN conjunct2, THEN conjunct2, THEN conjunct2,
      THEN conjunct2, THEN conjunct2]
  note sb = tail[THEN conjunct1]
  note ua = tail[THEN conjunct2, THEN conjunct2, THEN conjunct2, THEN conjunct1]
  have v1: "g_sub (layer_heap ?v1 0) = [SubMarker selectedIcon, SubPath]"
    "g_sub (layer_heap ?v1 (Suc 0)) = [SubMarker defaultIcon, SubPath]"
    "selected_style test_runtime (style_of ?v1 (Some 2))
       = [(''opacity'', Num (Fin (6 / 10))), (''fillOpacity'', Num (Fin (6 / 10))),
          (''color'', Str ''red'')]"
    by (simp_all add: select_eval own_prop_def)
  have m0: "m_icon (marker_heap (snd (selectMaker 2 ?w1)) 0) = defaultIcon"
    and m1: "m_icon (marker_heap (snd (selectMaker 2 ?w1)) 1) = selectedIcon"
    and ms: "selectedRowId (snd (selectMaker 2 ?w1)) = Some 2"
    by (simp_all add: m)
  have s0: "g_sub (layer_heap ?v2 0) = [SubMarker defaultIcon, SubPath]"
    and s1: "g_sub (layer_heap ?v2 1) = [SubMarker selectedIcon, SubPath]"
    and g1: "g_style (layer_heap ?v2 1)
       = [(''opacity'', Num (Fin (6 / 10))), (''fillOpacity'', Num (Fin (6 / 10))),
          (''color'', Str ''red'')]"
    by (simp_all add: g v1)
  have g0: "g_style (layer_heap ?v2 0)
       = [(''opacity'', Num (Fin (3 / 10))), (''fillOpacity'', Num (Fin (3 / 10)))]"
    using ua st(1) by simp
  have o1: "own_prop (g_style (layer_heap ?v2 1)) ''opacity'' = Num (Fin (6 / 10))"
    using sb[rule_format, of "Obj [(''color'', Str ''red'')]" "''opacity''"] st
    by (simp add: has_key_def)
  have o2: "own_prop (g_style (layer_heap ?v2 1)) ''color'' = Str ''red''"
    using sb[rule_format, of "Obj [(''color'', Str ''red'')]" "''color''"] st
    by (simp add: has_key_def own_prop_def)
  show ?thesis
    by (intro conjI) (rule a d st ms m0 m1 s0 s1 g0 g1 o1 o2)+
qed

theorem select_missing_unselects_previous_witness:
  "popups (snd (selectMaker 1 two_markers)) 7 = None
   \<and> selectedRowId (snd (selectMaker 1 two_markers)) = Some 1
   \<and> popups (snd (selectMaker 1 two_markers)) 1 = Some (MarkerRef 0)
   \<and> m_icon (marker_heap (snd (selectMaker 1 two_markers)) 0) = selectedIcon
   \<and> fst (selectMaker 7 (snd (selectMaker 1 two_markers))) = Inr None
   \<and> selectedRowId (snd (selectMaker 7 (snd (selectMaker 1 two_markers)))) = Some 1
   \<and> m_icon (marker_heap (snd (selectMaker 7 (snd (selectMaker 1 two_markers)))) 0) = defaultIcon
   \<and> geoJSONLayers (snd (selectGeoJSONFeature test_runtime 1 two_layers)) 7 = None
   \<and> fst (selectGeoJSONFeature test_runtime 7 (snd (selectGeoJSONFeature test_runtime 1 two_layers)))
       = None
   \<and> selectedRowId (snd (selectGeoJSONFeature test_runtime 7
                           (snd (selectGeoJSONFeature test_runtime 1 two_layers)))) = Some 1
   \<and> layer_heap (snd (selectGeoJSONFeature test_runtime 7
                           (snd (selectGeoJSONFeature test_runtime 1 two_layers)))) 0
       = \<lparr>g_style = [(''opacity'', Num (Fin (3 / 10))), (''fillOpacity'', Num (Fin (3 / 10)))],
          g_sub = [SubMarker defaultIcon, SubPath]\<rparr>"
proof -
  let ?w1 = "snd (selectMaker 1 two_markers)"
  let ?v1 = "snd (selectGeoJSONFeature test_runtime 1 two_layers)"
  have a: "popups ?w1 7 = None" "selectedRowId ?w1 = Some 1" "popups ?w1 1 = Some (MarkerRef 0)"
    "m_icon (marker_heap ?w1 0) = selectedIcon"
    by (simp_all add: select_eval)
  have b: "geoJSONLayers ?v1 7 = None" "selectedRowId ?v1 = Some 1" "geoJSONLayers ?v1 1 = Some 0"
    by (simp_all add: select_eval)
  have v: "g_sub (layer_heap ?v1 0) = [SubMarker selectedIcon, SubPath]"
    "unselected_style test_runtime (style_of ?v1 (Some 1))
       = [(''opacity'', Num (Fin (3 / 10))), (''fillOpacity'', Num (Fin (3 / 10)))]"
    by (simp_all add: select_eval)
  note inst = select_missing_unselects_previous[of ?w1 7 test_runtime]
  from inst a have m: "selectMaker 7 ?w1 =
          (Inr None,
           ?w1\<lparr>marker_heap := (marker_heap ?w1)
                (0 := (marker_heap ?w1 0)\<lparr>m_icon := defaultIcon, m_pane := Some ''otherMarkers''\<rparr>),
             calls := calls ?w1 @ [SetIcon (MarkerRef 0) defaultIcon, SetPane 0 ''otherMarkers'']\<rparr>)"
    by blast
  note inst2 = select_missing_unselects_previous[of ?v1 7 test_runtime]
  from inst2 b have g: "selectGeoJSONFeature test_runtime 7 ?v1 =
          (None,
           ?v1\<lparr>layer_heap := (layer_heap ?v1)
                (0 := \<lparr>g_style = unselected_style test_runtime (style_of ?v1 (Some 1)),
                       g_sub = map (sub_setIcon defaultIcon) (g_sub (layer_heap ?v1 0))\<rparr>),
             calls := calls ?v1 @ SetStyle 0 (unselected_style test_runtime (style_of ?v1 (Some 1)))
                        # sub_calls 0 defaultIcon (g_sub (layer_heap ?v1 0))\<rparr>)"
    by blast
  show ?thesis
    using a b by (simp add: m g v)
qed

end
